theory Spec2Isabelle
  imports Complex_Main "HOL-Library.AList"
begin

section \<open>The perception loop of \<open>run_exp\<close> (src/main.py)\<close>

text \<open>
  The repository is one function, \<open>run_exp\<close>: for every object name and trial it steps a
  simulator and, on every 100th step, turns the rendered colour, depth and segmentation
  images into one pose record per segmented object. The embedding follows the body of
  that function line by line. Numbers are exact rationals where the source has IEEE
  doubles. The array operations that the source gets from numpy are written out below on
  lists. What it gets from open3d (reconstruction, down-sampling, outlier removal, box
  fitting) and from \<open>np.linalg.inv\<close> is not code of the repository and is taken as a
  parameter, each call returning either the exception it raises or its result.
\<close>

subsection \<open>Data\<close>

type_synonym vec = "rat list"
type_synonym mat = "rat list list"

datatype exn = LinAlgError | ValueError | IndexError | RuntimeError string

text \<open>
  A Python dict is an association list in insertion order: \<open>d[k] = v\<close> is
  \<open>AList.update k v d\<close> (a new key goes to the end, an old one keeps its place),
  a lookup is \<open>map_of d k\<close>, the keys are \<open>map fst d\<close>. A pose record is a
  dict from field names to such values.
\<close>

datatype pyval = Vec vec | Mat mat | PyNone

type_synonym pose_record = "(string \<times> pyval) list"

record intrinsics =
  width :: nat
  height :: nat
  fx :: rat
  fy :: rat
  cx :: rat
  cy :: rat

record pointcloud =
  points :: "vec list"
  colors :: "vec list"

record obb =
  obb_R :: mat
  obb_extent :: vec

type_synonym rgb_image = "(int \<times> int \<times> int) list list"
type_synonym depth_image = "rat list list"
type_synonym seg_image = "int list list"

text \<open>
  The library calls of the loop. \<open>linalg_inv\<close> is \<open>np.linalg.inv\<close> of line 73: it
  factorises in floating point and raises LinAlgError where that factorisation meets a
  zero pivot, so which matrices it raises on is the library's matter and is left open
  here. The others are the open3d calls: \<open>create_from_rgbd_image\<close> stands for lines
  124-133 (colour image, depth image, depth scale, depth truncation, intrinsics),
  \<open>voxel_down_sample\<close> takes the voxel size, \<open>remove_statistical_outlier\<close> the
  neighbourhood size and the standard-deviation ratio.
\<close>

record libraries =
  linalg_inv :: "mat \<Rightarrow> exn + mat"
  create_from_rgbd_image :: "rgb_image \<Rightarrow> depth_image \<Rightarrow> rat \<Rightarrow> rat \<Rightarrow> intrinsics \<Rightarrow> exn + pointcloud"
  voxel_down_sample :: "pointcloud \<Rightarrow> rat \<Rightarrow> exn + pointcloud"
  remove_statistical_outlier :: "pointcloud \<Rightarrow> nat \<Rightarrow> rat \<Rightarrow> exn + pointcloud"
  get_oriented_bounding_box :: "pointcloud \<Rightarrow> exn + obb"

text \<open>What one call of \<open>sim.get_static_renders()\<close> and one read of \<open>sim.stat_viewMat\<close> give.\<close>

record frame =
  rgb_s :: rgb_image
  depth_s :: depth_image
  seg_s :: seg_image
  stat_viewMat :: "rat list"

text \<open>The messages printed inside the object loop, in the order of the source.\<close>

datatype event =
    UniqueIds "int list"
  | Processing int
  | NoPixels int
  | TooFewPoints int nat
  | CloudSize int nat
  | FilterError int exn
  | PoseReport int vec vec mat vec
  | ObbError int exn

datatype geometry =
    CoordinateFrame rat vec
  | WorldCloud "vec list" vec
  | OrientedBox vec mat vec

record frame_state =
  timestep_object_poses :: "(int \<times> pose_record) list"
  visualization_geometries :: "geometry list"
  printed :: "event list"

text \<open>
  A frame key is the f-string \<open>{obj_name}_{tstep}_{i}\<close> of line 244; the two numbers are
  read back from its right end, so the triple carries the same information.
\<close>

type_synonym frame_key = "string \<times> nat \<times> nat"

type_synonym run_result = "(frame_key \<times> (int \<times> pose_record) list) list"

record simulation =
  projection_matrix :: "rat list"
  renders :: "frame_key \<Rightarrow> frame"

subsection \<open>numpy on lists\<close>

text \<open>\<open>np.array(xs).reshape(4, 4)\<close>: row-major, a ValueError unless there are 16 entries.\<close>

definition reshape44 :: "rat list \<Rightarrow> exn + mat" where
  "reshape44 xs =
     (if length xs = 16
      then Inr [take 4 xs, take 4 (drop 4 xs), take 4 (drop 8 xs), take 4 (drop 12 xs)]
      else Inl ValueError)"

definition dot :: "vec \<Rightarrow> vec \<Rightarrow> rat" where
  "dot u v = sum_list (map2 (*) u v)"

text \<open>\<open>np.dot\<close> of a matrix with a vector, and of two matrices.\<close>

definition np_dot_mv :: "mat \<Rightarrow> vec \<Rightarrow> vec" where
  "np_dot_mv A v = map (\<lambda>row. dot row v) A"

definition np_dot_mm :: "mat \<Rightarrow> mat \<Rightarrow> mat" where
  "np_dot_mm A B = map (\<lambda>row. map (\<lambda>col. dot row col) (transpose B)) A"

definition np_eye3 :: mat where
  "np_eye3 = [[1, 0, 0], [0, 1, 0], [0, 0, 1]]"

definition np_append :: "vec \<Rightarrow> rat \<Rightarrow> vec" where
  "np_append v x = v @ [x]"

text \<open>\<open>np.mean(a, axis=0)\<close> of an array of rows.\<close>

definition np_mean_axis0 :: "vec list \<Rightarrow> vec" where
  "np_mean_axis0 a = map (\<lambda>col. sum_list col / of_nat (length a)) (transpose a)"

text \<open>\<open>np.unique\<close>: the distinct entries of the flattened array, ascending.\<close>

definition np_unique :: "seg_image \<Rightarrow> int list" where
  "np_unique seg = sort (remdups (concat seg))"

definition np_any :: "bool list list \<Rightarrow> bool" where
  "np_any m = list_ex (\<lambda>row. list_ex (\<lambda>b. b) row) m"

text \<open>\<open>np.where(mask, a, z)\<close> on images of one shape (the three renders share theirs).\<close>

definition np_where :: "bool list list \<Rightarrow> 'a list list \<Rightarrow> 'a \<Rightarrow> 'a list list" where
  "np_where m a z = map2 (\<lambda>mrow arow. map2 (\<lambda>b v. if b then v else z) mrow arow) m a"

text \<open>\<open>a[mask]\<close> with a boolean mask over the rows.\<close>

definition bool_index :: "bool list \<Rightarrow> 'a list \<Rightarrow> 'a list" where
  "bool_index keep a = map snd (filter fst (zip keep a))"

subsection \<open>The inverse in exact arithmetic\<close>

text \<open>
  The inverse of a 4x4 matrix by cofactors: what \<open>np.linalg.inv\<close> computes up to
  rounding. A matrix of determinant zero has none, which is reported as LinAlgError. This
  is the inverse of the round trip in exact arithmetic and the instance of the library
  call in the worked scene; the frame itself calls the library.
\<close>

definition drop_nth :: "nat \<Rightarrow> 'a list \<Rightarrow> 'a list" where
  "drop_nth k xs = take k xs @ drop (Suc k) xs"

definition det3 :: "mat \<Rightarrow> rat" where
  "det3 A =
     A ! 0 ! 0 * (A ! 1 ! 1 * A ! 2 ! 2 - A ! 1 ! 2 * A ! 2 ! 1)
   - A ! 0 ! 1 * (A ! 1 ! 0 * A ! 2 ! 2 - A ! 1 ! 2 * A ! 2 ! 0)
   + A ! 0 ! 2 * (A ! 1 ! 0 * A ! 2 ! 1 - A ! 1 ! 1 * A ! 2 ! 0)"

definition cofactor :: "mat \<Rightarrow> nat \<Rightarrow> nat \<Rightarrow> rat" where
  "cofactor A i j = (- 1) ^ (i + j) * det3 (map (drop_nth j) (drop_nth i A))"

definition det4 :: "mat \<Rightarrow> rat" where
  "det4 A = (\<Sum>j \<leftarrow> [0..<4]. A ! 0 ! j * cofactor A 0 j)"

definition shape44 :: "mat \<Rightarrow> bool" where
  "shape44 A = (length A = 4 \<and> list_all (\<lambda>row. length row = 4) A)"

definition exact_inv :: "mat \<Rightarrow> exn + mat" where
  "exact_inv A =
     (if \<not> shape44 A then Inl LinAlgError
      else if det4 A = 0 then Inl LinAlgError
      else Inr (map (\<lambda>i. map (\<lambda>j. cofactor A j i / det4 A) [0..<4]) [0..<4]))"

subsection \<open>Intrinsics (lines 31-36)\<close>

definition build_intrinsics :: "mat \<Rightarrow> intrinsics" where
  "build_intrinsics P =
     \<lparr>width = 640, height = 480,
      fx = P ! 0 ! 0, fy = P ! 1 ! 1, cx = P ! 0 ! 2, cy = P ! 1 ! 2\<rparr>"

definition intrinsics_of :: "rat list \<Rightarrow> exn + intrinsics" where
  "intrinsics_of pm =
     (case reshape44 pm of Inl e \<Rightarrow> Inl e | Inr P \<Rightarrow> Inr (build_intrinsics P))"

subsection \<open>One object of one frame (lines 100-236)\<close>

text \<open>Line 107: \<open>mask = (seg_s == obj_id)\<close>.\<close>

definition object_mask :: "seg_image \<Rightarrow> int \<Rightarrow> bool list list" where
  "object_mask seg obj_id = map (map (\<lambda>v. v = obj_id)) seg"

text \<open>
  Lines 136-142: the points that are not the origin, and their colours. Indexing the
  colours with a mask of another length is numpy's IndexError.
\<close>

definition remove_origin_points :: "pointcloud \<Rightarrow> exn + pointcloud" where
  "remove_origin_points pcd =
     (let keep = map (\<lambda>pt. \<not> list_all (\<lambda>c. c = 0) pt) (points pcd)
      in if length (colors pcd) \<noteq> length (points pcd) then Inl IndexError
         else Inr \<lparr>points = bool_index keep (points pcd),
                   colors = bool_index keep (colors pcd)\<rparr>)"

text \<open>
  Lines 115-142. The loop over the three colour channels of lines 119-120 sets each
  channel of a pixel outside the mask to 0.
\<close>

definition reconstruct ::
  "libraries \<Rightarrow> intrinsics \<Rightarrow> frame \<Rightarrow> bool list list \<Rightarrow> exn + pointcloud" where
  "reconstruct lib intrinsic fr obj_mask =
     (let rgb_masked = np_where obj_mask (rgb_s fr) (0, 0, 0);
          depth_masked = np_where obj_mask (depth_s fr) 0
      in case create_from_rgbd_image lib rgb_masked depth_masked 1 1000 intrinsic of
           Inl e \<Rightarrow> Inl e
         | Inr pcd_object \<Rightarrow> remove_origin_points pcd_object)"

text \<open>Lines 152-157, without the handler: the first exception ends the try block.\<close>

definition filter_cloud :: "libraries \<Rightarrow> pointcloud \<Rightarrow> exn + pointcloud" where
  "filter_cloud lib pcd =
     (case voxel_down_sample lib pcd (1 / 100) of
        Inl e \<Rightarrow> Inl e
      | Inr down \<Rightarrow> remove_statistical_outlier lib down 20 2)"

text \<open>
  Lines 166-167 and 196-198: append 1.0, multiply by the 4x4 matrix, keep three
  components. Line 175: the 3x3 block of the matrix times the rotation.
\<close>

definition homogeneous_transform :: "mat \<Rightarrow> vec \<Rightarrow> vec" where
  "homogeneous_transform M p = take 3 (np_dot_mv M (np_append p 1))"

definition rotate_to_world :: "mat \<Rightarrow> mat \<Rightarrow> mat" where
  "rotate_to_world M Rc = np_dot_mm (map (take 3) (take 3 M)) Rc"

text \<open>Line 206: the colour of an object in the world-frame view.\<close>

definition object_color :: "int \<Rightarrow> vec" where
  "object_color obj_id =
     [frac (of_int obj_id * (1 / 10)), frac (of_int obj_id * (3 / 10)),
      frac (of_int obj_id * (7 / 10))]"

text \<open>
  Lines 160-236. Every exception of the try block is caught by line 227, so this part
  returns a state and never an exception.
\<close>

definition estimate_pose ::
  "libraries \<Rightarrow> mat \<Rightarrow> int \<Rightarrow> pointcloud \<Rightarrow> frame_state \<Rightarrow> frame_state" where
  "estimate_pose lib stat_viewMat_inv obj_id pcd_object st =
     (if length (points pcd_object) > 0 then
        let centroid_camera = np_mean_axis0 (points pcd_object);
            centroid_world = homogeneous_transform stat_viewMat_inv centroid_camera
        in case get_oriented_bounding_box lib pcd_object of
             Inr box \<Rightarrow>
               let orientation_camera = obb_R box;
                   orientation_world = rotate_to_world stat_viewMat_inv orientation_camera
               in st\<lparr>timestep_object_poses := AList.update obj_id
                        [(''position_camera'', Vec centroid_camera),
                         (''orientation_camera'', Mat orientation_camera),
                         (''position_world'', Vec centroid_world),
                         (''orientation_world'', Mat orientation_world),
                         (''dimensions'', Vec (obb_extent box))]
                        (timestep_object_poses st),
                      printed := printed st @
                        [PoseReport obj_id centroid_camera centroid_world orientation_world
                           (obb_extent box)],
                      visualization_geometries := visualization_geometries st @
                        [WorldCloud
                           (map (homogeneous_transform stat_viewMat_inv) (points pcd_object))
                           (object_color obj_id),
                         CoordinateFrame (1 / 5) centroid_world,
                         OrientedBox centroid_world orientation_world (obb_extent box)]\<rparr>
           | Inl e \<Rightarrow>
               st\<lparr>timestep_object_poses := AList.update obj_id
                     [(''position_camera'', Vec centroid_camera),
                      (''position_world'', Vec centroid_world),
                      (''orientation_camera'', Mat np_eye3),
                      (''orientation_world'', Mat (rotate_to_world stat_viewMat_inv np_eye3)),
                      (''dimensions'', PyNone)]
                     (timestep_object_poses st),
                   printed := printed st @ [ObbError obj_id e]\<rparr>
      else st)"

text \<open>
  The body of the loop of line 100. \<open>Inl\<close> is an exception that no handler of the loop
  catches; it leaves \<open>run_exp\<close>.
\<close>

definition process_object ::
  "libraries \<Rightarrow> intrinsics \<Rightarrow> mat \<Rightarrow> frame \<Rightarrow> frame_state \<Rightarrow> int \<Rightarrow> exn + frame_state" where
  "process_object lib intrinsic stat_viewMat_inv fr st obj_id =
     (if obj_id \<le> 0 then Inr st
      else
        let st1 = st\<lparr>printed := printed st @ [Processing obj_id]\<rparr>;
            obj_mask = object_mask (seg_s fr) obj_id
        in if \<not> np_any obj_mask then Inr (st1\<lparr>printed := printed st1 @ [NoPixels obj_id]\<rparr>)
           else
             (case reconstruct lib intrinsic fr obj_mask of
               Inl e \<Rightarrow> Inl e
             | Inr pcd_object \<Rightarrow>
                 if length (points pcd_object) < 10
                 then Inr (st1\<lparr>printed := printed st1 @
                             [TooFewPoints obj_id (length (points pcd_object))]\<rparr>)
                 else
                   (let st2 = st1\<lparr>printed := printed st1 @
                                  [CloudSize obj_id (length (points pcd_object))]\<rparr>
                    in (case filter_cloud lib pcd_object of
                          Inl e \<Rightarrow> Inr (st2\<lparr>printed := printed st2 @ [FilterError obj_id e]\<rparr>)
                        | Inr filtered \<Rightarrow>
                            Inr (estimate_pose lib stat_viewMat_inv obj_id filtered st2)))))"

fun process_objects ::
  "(frame_state \<Rightarrow> int \<Rightarrow> exn + frame_state) \<Rightarrow> frame_state \<Rightarrow> int list \<Rightarrow> exn + frame_state" where
  "process_objects body st [] = Inr st"
| "process_objects body st (obj_id # ids) =
     (case body st obj_id of
        Inl e \<Rightarrow> Inl e
      | Inr st' \<Rightarrow> process_objects body st' ids)"

subsection \<open>One frame (lines 69-236) and the run\<close>

text \<open>
  The perception pass of one frame. Line 73 inverts the view matrix before anything else
  and has no handler, so an exception of the inversion leaves the frame. The state starts with no pose and with the world coordinate frame
  of lines 96-97.
\<close>

definition perceive_frame :: "libraries \<Rightarrow> intrinsics \<Rightarrow> frame \<Rightarrow> exn + frame_state" where
  "perceive_frame lib intrinsic fr =
     (case reshape44 (stat_viewMat fr) of
        Inl e \<Rightarrow> Inl e
      | Inr stat_viewMat_array \<Rightarrow>
          (case linalg_inv lib stat_viewMat_array of
             Inl e \<Rightarrow> Inl e
           | Inr stat_viewMat_inv \<Rightarrow>
               (let unique_ids = np_unique (seg_s fr)
                in process_objects (process_object lib intrinsic stat_viewMat_inv fr)
                     \<lparr>timestep_object_poses = [],
                      visualization_geometries = [CoordinateFrame (1 / 2) [0, 0, 0]],
                      printed = [UniqueIds unique_ids]\<rparr>
                     unique_ids)))"

text \<open>
  The frames that reach the perception pass: every 100th of the 10000 steps of each of the
  10 trials of each object name (lines 40, 41, 58, 63).
\<close>

definition frame_keys :: "string list \<Rightarrow> frame_key list" where
  "frame_keys obj_names =
     concat (map (\<lambda>obj_name.
       concat (map (\<lambda>tstep.
         map (\<lambda>i. (obj_name, tstep, i)) (filter (\<lambda>i. i mod 100 = 0) [0..<10000]))
       [0..<10]))
     obj_names)"

text \<open>
  The loops of lines 40-281 over those frames. The window of lines 247-270 and the
  simulator's own checks of lines 275-281 take nothing from and add nothing to the
  result. An exception of a frame is caught nowhere in \<open>run_exp\<close>.
\<close>

fun run_frames ::
  "libraries \<Rightarrow> intrinsics \<Rightarrow> (frame_key \<Rightarrow> frame) \<Rightarrow> run_result \<Rightarrow> frame_key list
     \<Rightarrow> exn + run_result" where
  "run_frames lib intrinsic render all_object_poses [] = Inr all_object_poses"
| "run_frames lib intrinsic render all_object_poses (k # ks) =
     (case perceive_frame lib intrinsic (render k) of
        Inl e \<Rightarrow> Inl e
      | Inr st \<Rightarrow>
          run_frames lib intrinsic render
            (AList.update k (timestep_object_poses st) all_object_poses) ks)"

definition run_exp :: "libraries \<Rightarrow> simulation \<Rightarrow> string list \<Rightarrow> exn + run_result" where
  "run_exp lib sim obj_names =
     (case intrinsics_of (projection_matrix sim) of
        Inl e \<Rightarrow> Inl e
      | Inr intrinsic \<Rightarrow>
          run_frames lib intrinsic (renders sim) [] (frame_keys obj_names))"

subsection \<open>Vocabulary of the properties\<close>

text \<open>The pixels at which a mask is true, and the foreground of a segmentation image.\<close>

definition true_pixels :: "bool list list \<Rightarrow> (nat \<times> nat) list" where
  "true_pixels m =
     concat (map (\<lambda>r. map (\<lambda>c. (r, c)) (filter (\<lambda>c. m ! r ! c) [0..<length (m ! r)]))
       [0..<length m])"

definition foreground :: "seg_image \<Rightarrow> bool list list" where
  "foreground seg = map (map (\<lambda>v. 0 < v)) seg"

text \<open>
  The cloud of an object reached the threshold of line 145; the filter of lines 152-154
  raised nothing and left at least one point (line 160); it left none.
\<close>

definition reaches_threshold :: "libraries \<Rightarrow> intrinsics \<Rightarrow> frame \<Rightarrow> int \<Rightarrow> bool" where
  "reaches_threshold lib intrinsic fr obj_id =
     (case reconstruct lib intrinsic fr (object_mask (seg_s fr) obj_id) of
        Inl e \<Rightarrow> False
      | Inr pcd \<Rightarrow> 10 \<le> length (points pcd))"

definition filter_leaves_points :: "libraries \<Rightarrow> intrinsics \<Rightarrow> frame \<Rightarrow> int \<Rightarrow> bool" where
  "filter_leaves_points lib intrinsic fr obj_id =
     (case reconstruct lib intrinsic fr (object_mask (seg_s fr) obj_id) of
        Inl e \<Rightarrow> False
      | Inr pcd \<Rightarrow>
          (case filter_cloud lib pcd of
             Inl e \<Rightarrow> False
           | Inr filtered \<Rightarrow> 0 < length (points filtered)))"

definition filter_leaves_nothing :: "libraries \<Rightarrow> intrinsics \<Rightarrow> frame \<Rightarrow> int \<Rightarrow> bool" where
  "filter_leaves_nothing lib intrinsic fr obj_id =
     (case reconstruct lib intrinsic fr (object_mask (seg_s fr) obj_id) of
        Inl e \<Rightarrow> False
      | Inr pcd \<Rightarrow>
          (case filter_cloud lib pcd of
             Inl e \<Rightarrow> False
           | Inr filtered \<Rightarrow> length (points filtered) = 0))"

definition cloud_size :: "libraries \<Rightarrow> intrinsics \<Rightarrow> frame \<Rightarrow> int \<Rightarrow> nat" where
  "cloud_size lib intrinsic fr obj_id =
     (case reconstruct lib intrinsic fr (object_mask (seg_s fr) obj_id) of
        Inl e \<Rightarrow> 0
      | Inr pcd \<Rightarrow> length (points pcd))"

text \<open>
  A pose record with both positions and both orientations, the world orientation being
  the rotated camera orientation, and the camera orientation the identity where the
  dimensions are None.
\<close>

definition complete_record :: "mat \<Rightarrow> pose_record \<Rightarrow> bool" where
  "complete_record M r =
     (case map_of r ''position_camera'' of
        Some (Vec pc) \<Rightarrow>
          (case map_of r ''position_world'' of
             Some (Vec pw) \<Rightarrow>
               (case map_of r ''orientation_camera'' of
                  Some (Mat Rc) \<Rightarrow>
                    map_of r ''orientation_world'' = Some (Mat (rotate_to_world M Rc)) \<and>
                    (map_of r ''dimensions'' = Some PyNone \<longrightarrow> Rc = np_eye3)
                | _ \<Rightarrow> False)
           | _ \<Rightarrow> False)
      | _ \<Rightarrow> False)"

text \<open>The object a printed message is about, and the messages about one object.\<close>

fun event_id :: "event \<Rightarrow> int option" where
  "event_id (UniqueIds ids) = None"
| "event_id (Processing i) = Some i"
| "event_id (NoPixels i) = Some i"
| "event_id (TooFewPoints i n) = Some i"
| "event_id (CloudSize i n) = Some i"
| "event_id (FilterError i e) = Some i"
| "event_id (PoseReport i pc pw ow ext) = Some i"
| "event_id (ObbError i e) = Some i"

definition events_of :: "int \<Rightarrow> event list \<Rightarrow> event list" where
  "events_of obj_id evs = filter (\<lambda>ev. event_id ev = Some obj_id) evs"

text \<open>The entry of one object in the dict that line 244 stores for a frame.\<close>

definition frame_result_at ::
  "libraries \<Rightarrow> intrinsics \<Rightarrow> frame \<Rightarrow> int \<Rightarrow> exn + pose_record option" where
  "frame_result_at lib intrinsic fr obj_id =
     (case perceive_frame lib intrinsic fr of
        Inl e \<Rightarrow> Inl e
      | Inr st \<Rightarrow> Inr (map_of (timestep_object_poses st) obj_id))"

subsection \<open>A worked scene\<close>

text \<open>
  An instance of the libraries for the examples. The inversion is the exact one, which is
  what numpy returns on the matrices of the scene: a translation, whose factorisation
  involves no rounding, and the zero matrix, whose first pivot is 0. The reconstruction is
  the pinhole back-projection of one point per pixel,
  \<open>((u - cx) d / fx, (v - cy) d / fy, d)\<close>, so a pixel of depth 0 gives the origin; the
  points of the scene are further apart than a voxel and than any outlier bound, so both
  filters return the cloud as it is; the box is the axis-aligned one.
\<close>

definition pinhole_cloud ::
  "rgb_image \<Rightarrow> depth_image \<Rightarrow> rat \<Rightarrow> rat \<Rightarrow> intrinsics \<Rightarrow> exn + pointcloud" where
  "pinhole_cloud color depth depth_scale depth_trunc K =
     Inr \<lparr>points = concat (map (\<lambda>(v, row).
              map (\<lambda>(u, d). [(of_nat u - cx K) * d / fx K, (of_nat v - cy K) * d / fy K, d])
                (enumerate 0 row))
            (enumerate 0 depth)),
          colors = concat (map (map (\<lambda>(r, g, b).
              [of_int r / 255, of_int g / 255, of_int b / 255])) color)\<rparr>"

definition axis_aligned_box :: "pointcloud \<Rightarrow> exn + obb" where
  "axis_aligned_box pcd =
     Inr \<lparr>obb_R = np_eye3,
          obb_extent = map (\<lambda>col. fold max col (hd col) - fold min col (hd col))
                         (transpose (points pcd))\<rparr>"

definition scene_lib :: libraries where
  "scene_lib =
     \<lparr>linalg_inv = exact_inv,
      create_from_rgbd_image = pinhole_cloud,
      voxel_down_sample = (\<lambda>pcd voxel_size. Inr pcd),
      remove_statistical_outlier = (\<lambda>pcd nb_neighbors std_ratio. Inr pcd),
      get_oriented_bounding_box = axis_aligned_box\<rparr>"

text \<open>The same library with an outlier removal that keeps no point.\<close>

definition scene_lib_no_inliers :: libraries where
  "scene_lib_no_inliers =
     scene_lib\<lparr>remove_statistical_outlier :=
       (\<lambda>pcd nb_neighbors std_ratio. Inr \<lparr>points = [], colors = []\<rparr>)\<rparr>"

text \<open>The same library with a box fitting that raises.\<close>

definition scene_lib_no_box :: libraries where
  "scene_lib_no_box =
     scene_lib\<lparr>get_oriented_bounding_box := (\<lambda>pcd. Inl (RuntimeError ''degenerate''))\<rparr>"

definition scene_projection :: "rat list" where
  "scene_projection = [2, 0, 1, 0,  0, 2, 1, 0,  0, 0, 1, 0,  0, 0, 0, 1]"

definition scene_intrinsics :: intrinsics where
  "scene_intrinsics = \<lparr>width = 640, height = 480, fx = 2, fy = 2, cx = 1, cy = 1\<rparr>"

text \<open>
  A 4x4 frame at depth 2: object 5 on twelve pixels, object 2 on two, background 0 and -1.
  The camera sits at (1, 2, 3) without rotation.
\<close>

definition scene_seg :: seg_image where
  "scene_seg = [[5, 5, 5, 5], [5, 5, 5, 5], [5, 5, 5, 5], [0, 2, 2, - 1]]"

definition scene_view :: "rat list" where
  "scene_view = [1, 0, 0, 1,  0, 1, 0, 2,  0, 0, 1, 3,  0, 0, 0, 1]"

definition scene_frame :: frame where
  "scene_frame =
     \<lparr>rgb_s = replicate 4 (replicate 4 (10, 20, 30)),
      depth_s = replicate 4 (replicate 4 2),
      seg_s = scene_seg,
      stat_viewMat = scene_view\<rparr>"

text \<open>The same frame under the zero view matrix.\<close>

definition singular_frame :: frame where
  "singular_frame = scene_frame\<lparr>stat_viewMat := replicate 16 0\<rparr>"

text \<open>A simulator whose first processed frame has the singular view matrix.\<close>

definition scene_sim :: simulation where
  "scene_sim =
     \<lparr>projection_matrix = scene_projection,
      renders = (\<lambda>k. if k = (''YcbBanana'', 0, 0) then singular_frame else scene_frame)\<rparr>"

section \<open>Properties\<close>


subsection \<open>Segmentation masks\<close>

lemma set_np_unique: "set (np_unique seg) = (\<Union>row\<in>set seg. set row)"
  by (simp add: np_unique_def)

lemma distinct_np_unique: "distinct (np_unique seg)"
  by (simp add: np_unique_def)

lemma np_any_object_mask:
  "np_any (object_mask seg i) \<longleftrightarrow> i \<in> set (np_unique seg)"
  by (auto simp: np_any_def object_mask_def list_ex_iff set_np_unique)

lemma set_true_pixels:
  "set (true_pixels m) = {(r, c). r < length m \<and> c < length (m ! r) \<and> m ! r ! c}"
  by (auto simp: true_pixels_def)

lemma true_pixels_object_mask:
  "set (true_pixels (object_mask seg i)) =
     {(r, c). r < length seg \<and> c < length (seg ! r) \<and> seg ! r ! c = i}"
  by (auto simp: set_true_pixels object_mask_def)

lemma true_pixels_foreground:
  "set (true_pixels (foreground seg)) =
     {(r, c). r < length seg \<and> c < length (seg ! r) \<and> 0 < seg ! r ! c}"
  by (auto simp: set_true_pixels foreground_def)

lemma pixel_in_unique:
  "r < length seg \<Longrightarrow> c < length (seg ! r) \<Longrightarrow> seg ! r ! c \<in> set (np_unique seg)"
  by (auto simp: set_np_unique intro!: bexI [of _ "seg ! r"])

text \<open>
  Claim C7. The masks of line 107 for the distinct IDs above 0 of a segmentation image
  cover exactly its foreground pixels (those with an ID above 0), and the masks of two
  different IDs share no pixel; \<open>np.unique\<close> lists each ID once.
\<close>

theorem object_masks_partition_foreground:
  "(\<Union>i\<in>{i \<in> set (np_unique seg). \<not> i \<le> 0}. set (true_pixels (object_mask seg i)))
     = set (true_pixels (foreground seg))
   \<and> (\<forall>i\<in>set (np_unique seg). \<forall>j\<in>set (np_unique seg). i \<noteq> j \<longrightarrow>
        set (true_pixels (object_mask seg i)) \<inter> set (true_pixels (object_mask seg j)) = {})
   \<and> distinct (np_unique seg)"
proof (intro conjI)
  show "(\<Union>i\<in>{i \<in> set (np_unique seg). \<not> i \<le> 0}. set (true_pixels (object_mask seg i)))
          = set (true_pixels (foreground seg))"
    unfolding true_pixels_object_mask true_pixels_foreground
    using pixel_in_unique [of _ seg] by auto
  show "\<forall>i\<in>set (np_unique seg). \<forall>j\<in>set (np_unique seg). i \<noteq> j \<longrightarrow>
          set (true_pixels (object_mask seg i)) \<inter> set (true_pixels (object_mask seg j)) = {}"
    unfolding true_pixels_object_mask by auto
  show "distinct (np_unique seg)" by (rule distinct_np_unique)
qed

theorem object_masks_partition_foreground_witness:
  "2 \<in> set (np_unique scene_seg) \<and> 5 \<in> set (np_unique scene_seg)
   \<and> set (true_pixels (object_mask scene_seg 2)) \<inter> set (true_pixels (object_mask scene_seg 5)) = {}
   \<and> (3, 1) \<in> set (true_pixels (foreground scene_seg))
   \<and> (3, 1) \<in> (\<Union>i\<in>{i \<in> set (np_unique scene_seg). \<not> i \<le> 0}.
                   set (true_pixels (object_mask scene_seg i)))"
proof -
  have m: "2 \<in> set (np_unique scene_seg)" "5 \<in> set (np_unique scene_seg)"
    by code_simp+
  have f: "(3, 1) \<in> set (true_pixels (foreground scene_seg))"
    by code_simp
  have ne: "(2::int) \<noteq> 5"
    by simp
  from object_masks_partition_foreground [of scene_seg] m f show ?thesis
    by (simp add: ne)
qed

subsection \<open>Intrinsics\<close>

text \<open>
  Claim C8. From the 16 entries of a row-major 4x4 projection matrix, lines 31-36 read fx,
  fy, cx and cy at positions (0,0), (1,1), (0,2) and (1,2), take 640 and 480 as width and
  height, and raise nothing; the result depends on nothing else.
\<close>

theorem intrinsics_read_from_projection:
  "intrinsics_of [p00, p01, p02, p03, p10, p11, p12, p13, p20, p21, p22, p23, p30, p31, p32, p33]
     = Inr \<lparr>width = 640, height = 480, fx = p00, fy = p11, cx = p02, cy = p12\<rparr>
   \<and> build_intrinsics [[p00, p01, p02, p03], [p10, p11, p12, p13], [p20, p21, p22, p23],
                        [p30, p31, p32, p33]]
     = \<lparr>width = 640, height = 480, fx = p00, fy = p11, cx = p02, cy = p12\<rparr>"
  by (simp add: intrinsics_of_def reshape44_def build_intrinsics_def)


subsection \<open>The inverse of a 4x4 matrix\<close>

lemma upt4: "[0..<4] = [0, 1, 2, 3]"
  by (simp add: upt_rec)

lemma lt4_cases: "r < (4::nat) \<Longrightarrow> r = 0 \<or> r = 1 \<or> r = 2 \<or> r = 3"
  by arith

text \<open>Expanding along row \<open>c\<close> with the entries of row \<open>r\<close>.\<close>

lemma laplace:
  assumes "r < 4" and "c < 4"
  shows "(\<Sum>s\<leftarrow>[0..<4].
            [[v00, v01, v02, v03], [v10, v11, v12, v13], [v20, v21, v22, v23],
             [v30, v31, v32, v33]] ! r ! s
            * cofactor [[v00, v01, v02, v03], [v10, v11, v12, v13], [v20, v21, v22, v23],
                        [v30, v31, v32, v33]] c s)
         = (if r = c
            then det4 [[v00, v01, v02, v03], [v10, v11, v12, v13], [v20, v21, v22, v23],
                       [v30, v31, v32, v33]]
            else 0)"
  using lt4_cases [OF assms(1)] lt4_cases [OF assms(2)]
  by (elim disjE; simp add: det4_def cofactor_def det3_def drop_nth_def upt4 algebra_simps)

lemma np_dot_mm_44:
  "np_dot_mm [[v00, v01, v02, v03], [v10, v11, v12, v13], [v20, v21, v22, v23],
              [v30, v31, v32, v33]]
             [[w00, w01, w02, w03], [w10, w11, w12, w13], [w20, w21, w22, w23],
              [w30, w31, w32, w33]]
   = [[v00*w00 + v01*w10 + v02*w20 + v03*w30, v00*w01 + v01*w11 + v02*w21 + v03*w31,
       v00*w02 + v01*w12 + v02*w22 + v03*w32, v00*w03 + v01*w13 + v02*w23 + v03*w33],
      [v10*w00 + v11*w10 + v12*w20 + v13*w30, v10*w01 + v11*w11 + v12*w21 + v13*w31,
       v10*w02 + v11*w12 + v12*w22 + v13*w32, v10*w03 + v11*w13 + v12*w23 + v13*w33],
      [v20*w00 + v21*w10 + v22*w20 + v23*w30, v20*w01 + v21*w11 + v22*w21 + v23*w31,
       v20*w02 + v21*w12 + v22*w22 + v23*w32, v20*w03 + v21*w13 + v22*w23 + v23*w33],
      [v30*w00 + v31*w10 + v32*w20 + v33*w30, v30*w01 + v31*w11 + v32*w21 + v33*w31,
       v30*w02 + v31*w12 + v32*w22 + v33*w32, v30*w03 + v31*w13 + v32*w23 + v33*w33]]"
  by (simp add: np_dot_mm_def dot_def)

lemma scaled_sum:
  "(D::rat) \<noteq> 0 \<Longrightarrow> a * x + (b * y + (c * z + d * w)) = s
    \<Longrightarrow> a * (x / D) + b * (y / D) + c * (z / D) + d * (w / D) = s / D"
  by (auto simp: field_simps)

lemma shape44_explicit:
  assumes "shape44 V"
  obtains v00 v01 v02 v03 v10 v11 v12 v13 v20 v21 v22 v23 v30 v31 v32 v33 where
    "V = [[v00, v01, v02, v03], [v10, v11, v12, v13], [v20, v21, v22, v23],
          [v30, v31, v32, v33]]"
proof -
  have len4: "\<exists>a b c d. xs = [a, b, c, d]" if "length xs = 4" for xs :: "'a list"
    using that by (auto simp: length_Suc_conv numeral_eq_Suc)
  from assms obtain r0 r1 r2 r3 where V: "V = [r0, r1, r2, r3]"
    using len4 [of V] by (auto simp: shape44_def)
  with assms have "length r0 = 4" "length r1 = 4" "length r2 = 4" "length r3 = 4"
    by (auto simp: shape44_def)
  then show thesis
    using len4 [of r0] len4 [of r1] len4 [of r2] len4 [of r3] V that by blast
qed

lemma exact_inv_Inr:
  assumes "exact_inv V = Inr Vi"
  shows "shape44 V" and "det4 V \<noteq> 0"
    and "Vi = map (\<lambda>i. map (\<lambda>j. cofactor V j i / det4 V) [0..<4]) [0..<4]"
  using assms by (auto simp: exact_inv_def split: if_splits)

lemma exact_inv_singular: "det4 V = 0 \<Longrightarrow> exact_inv V = Inl LinAlgError"
  by (simp add: exact_inv_def)

text \<open>What \<open>exact_inv\<close> returns is a right inverse.\<close>

lemma exact_inv_right:
  assumes "exact_inv V = Inr Vi"
  shows "np_dot_mm V Vi = [[1, 0, 0, 0], [0, 1, 0, 0], [0, 0, 1, 0], [0, 0, 0, 1]]"
proof -
  note sh = exact_inv_Inr(1) [OF assms] and D = exact_inv_Inr(2) [OF assms]
    and Vi = exact_inv_Inr(3) [OF assms]
  from sh obtain v00 v01 v02 v03 v10 v11 v12 v13 v20 v21 v22 v23 v30 v31 v32 v33 where
    V: "V = [[v00, v01, v02, v03], [v10, v11, v12, v13], [v20, v21, v22, v23],
             [v30, v31, v32, v33]]"
    by (rule shape44_explicit)
  have e: "V ! r ! 0 * (cofactor V c 0 / det4 V) + V ! r ! 1 * (cofactor V c 1 / det4 V)
         + V ! r ! 2 * (cofactor V c 2 / det4 V) + V ! r ! 3 * (cofactor V c 3 / det4 V)
         = (if r = c then 1 else 0)" if "r < 4" "c < 4" for r c
  proof -
    have "V ! r ! 0 * cofactor V c 0 + (V ! r ! 1 * cofactor V c 1
         + (V ! r ! 2 * cofactor V c 2 + V ! r ! 3 * cofactor V c 3))
         = (if r = c then det4 V else 0)"
      using laplace [OF that, of v00 v01 v02 v03 v10 v11 v12 v13 v20 v21 v22 v23 v30 v31 v32 v33]
      unfolding V [symmetric] by (simp add: upt4)
    from scaled_sum [OF D this] D show ?thesis by simp
  qed
  have Vi': "Vi = [[cofactor V 0 0 / det4 V, cofactor V 1 0 / det4 V,
                    cofactor V 2 0 / det4 V, cofactor V 3 0 / det4 V],
                   [cofactor V 0 1 / det4 V, cofactor V 1 1 / det4 V,
                    cofactor V 2 1 / det4 V, cofactor V 3 1 / det4 V],
                   [cofactor V 0 2 / det4 V, cofactor V 1 2 / det4 V,
                    cofactor V 2 2 / det4 V, cofactor V 3 2 / det4 V],
                   [cofactor V 0 3 / det4 V, cofactor V 1 3 / det4 V,
                    cofactor V 2 3 / det4 V, cofactor V 3 3 / det4 V]]"
    unfolding Vi by (simp add: upt4)
  have "np_dot_mm [[v00, v01, v02, v03], [v10, v11, v12, v13], [v20, v21, v22, v23],
                   [v30, v31, v32, v33]] Vi
        = [[1, 0, 0, 0], [0, 1, 0, 0], [0, 0, 1, 0], [0, 0, 0, 1]]"
    unfolding Vi' np_dot_mm_44
    using e [of 0 0] e [of 0 1] e [of 0 2] e [of 0 3]
          e [of 1 0] e [of 1 1] e [of 1 2] e [of 1 3]
          e [of 2 0] e [of 2 1] e [of 2 2] e [of 2 3]
          e [of 3 0] e [of 3 1] e [of 3 2] e [of 3 3]
    unfolding V by simp
  then show ?thesis unfolding V .
qed

lemma det4_affine:
  "det4 [[a, b, c, d], [e, f, g, h], [i, j, k, l], [0, 0, 0, 1]]
     = det3 [[a, b, c], [e, f, g], [i, j, k]]"
  by (simp add: det4_def cofactor_def det3_def drop_nth_def upt4 algebra_simps)

text \<open>The inverse of a matrix with last row (0, 0, 0, 1) has that last row too.\<close>

lemma exact_inv_affine_row:
  assumes "exact_inv V = Inr Vi" and "V ! 3 = [0, 0, 0, 1]"
  shows "\<exists>w00 w01 w02 w03 w10 w11 w12 w13 w20 w21 w22 w23.
           Vi = [[w00, w01, w02, w03], [w10, w11, w12, w13], [w20, w21, w22, w23],
                 [0, 0, 0, 1]]"
proof -
  note sh = exact_inv_Inr(1) [OF assms(1)] and D = exact_inv_Inr(2) [OF assms(1)]
    and Vi = exact_inv_Inr(3) [OF assms(1)]
  from sh obtain v00 v01 v02 v03 v10 v11 v12 v13 v20 v21 v22 v23 v30 v31 v32 v33 where
    "V = [[v00, v01, v02, v03], [v10, v11, v12, v13], [v20, v21, v22, v23],
          [v30, v31, v32, v33]]"
    by (rule shape44_explicit)
  with assms(2)
  have V: "V = [[v00, v01, v02, v03], [v10, v11, v12, v13], [v20, v21, v22, v23],
                [0, 0, 0, 1]]"
    by simp
  have "cofactor V 0 3 = 0" "cofactor V 1 3 = 0" "cofactor V 2 3 = 0"
       "cofactor V 3 3 = det4 V"
    unfolding V det4_affine by (simp_all add: cofactor_def det3_def drop_nth_def)
  with D show ?thesis unfolding Vi by (simp add: upt4)
qed

subsection \<open>Camera frame to world frame\<close>

lemma homogeneous_transform_explicit:
  "homogeneous_transform
     [[m00, m01, m02, m03], [m10, m11, m12, m13], [m20, m21, m22, m23], [m30, m31, m32, m33]]
     [x, y, z]
   = [m00 * x + m01 * y + m02 * z + m03,
      m10 * x + m11 * y + m12 * z + m13,
      m20 * x + m21 * y + m22 * z + m23]"
  by (simp add: homogeneous_transform_def np_dot_mv_def np_append_def dot_def add.assoc)

lemma rotate_to_world_explicit:
  "rotate_to_world
     [[m00, m01, m02, m03], [m10, m11, m12, m13], [m20, m21, m22, m23], [m30, m31, m32, m33]]
     [[r00, r01, r02], [r10, r11, r12], [r20, r21, r22]]
   = [[m00 * r00 + m01 * r10 + m02 * r20, m00 * r01 + m01 * r11 + m02 * r21,
       m00 * r02 + m01 * r12 + m02 * r22],
      [m10 * r00 + m11 * r10 + m12 * r20, m10 * r01 + m11 * r11 + m12 * r21,
       m10 * r02 + m11 * r12 + m12 * r22],
      [m20 * r00 + m21 * r10 + m22 * r20, m20 * r01 + m21 * r11 + m22 * r21,
       m20 * r02 + m21 * r12 + m22 * r22]]"
  by (simp add: rotate_to_world_def np_dot_mm_def dot_def add.assoc)

text \<open>
  Claim C6. A view matrix is a rigid transform, a rotation and a translation, so its last
  row is (0, 0, 0, 1). For every such matrix that is invertible and every camera-frame
  point, taking the point to the world frame with the inverse view matrix and back with
  the view matrix, each time by the homogeneous transform of lines 196-198, returns the
  point, in exact arithmetic.
\<close>

theorem view_round_trip:
  assumes "exact_inv V = Inr Vi" and "V ! 3 = [0, 0, 0, 1]" and "length p = 3"
  shows "homogeneous_transform V (homogeneous_transform Vi p) = p"
proof -
  from exact_inv_Inr(1) [OF assms(1)]
  obtain v00 v01 v02 v03 v10 v11 v12 v13 v20 v21 v22 v23 v30 v31 v32 v33 where
    "V = [[v00, v01, v02, v03], [v10, v11, v12, v13], [v20, v21, v22, v23],
          [v30, v31, v32, v33]]"
    by (rule shape44_explicit)
  with assms(2)
  have V: "V = [[v00, v01, v02, v03], [v10, v11, v12, v13], [v20, v21, v22, v23],
                [0, 0, 0, 1]]"
    by simp
  from exact_inv_affine_row [OF assms(1,2)]
  obtain w00 w01 w02 w03 w10 w11 w12 w13 w20 w21 w22 w23 where
    Vi: "Vi = [[w00, w01, w02, w03], [w10, w11, w12, w13], [w20, w21, w22, w23],
               [0, 0, 0, 1]]"
    by blast
  from assms(3) obtain x y z where p: "p = [x, y, z]"
    by (auto simp: length_Suc_conv numeral_eq_Suc)
  from exact_inv_right [OF assms(1)]
  have I: "v00*w00 + v01*w10 + v02*w20 = 1" "v00*w01 + v01*w11 + v02*w21 = 0"
          "v00*w02 + v01*w12 + v02*w22 = 0" "v00*w03 + v01*w13 + v02*w23 + v03 = 0"
          "v10*w00 + v11*w10 + v12*w20 = 0" "v10*w01 + v11*w11 + v12*w21 = 1"
          "v10*w02 + v11*w12 + v12*w22 = 0" "v10*w03 + v11*w13 + v12*w23 + v13 = 0"
          "v20*w00 + v21*w10 + v22*w20 = 0" "v20*w01 + v21*w11 + v22*w21 = 0"
          "v20*w02 + v21*w12 + v22*w22 = 1" "v20*w03 + v21*w13 + v22*w23 + v23 = 0"
    unfolding V Vi np_dot_mm_44 by simp_all
  have regroup:
    "a * (q0 * x + q1 * y + q2 * z + q3) + b * (s0 * x + s1 * y + s2 * z + s3)
       + c * (t0 * x + t1 * y + t2 * z + t3) + d
     = (a * q0 + b * s0 + c * t0) * x + (a * q1 + b * s1 + c * t1) * y
       + (a * q2 + b * s2 + c * t2) * z + (a * q3 + b * s3 + c * t3 + d)"
    for a b c d q0 q1 q2 q3 s0 s1 s2 s3 t0 t1 t2 t3 :: rat
    by (simp add: algebra_simps)
  have "homogeneous_transform V (homogeneous_transform Vi p) =
        [v00 * (w00*x + w01*y + w02*z + w03) + v01 * (w10*x + w11*y + w12*z + w13)
          + v02 * (w20*x + w21*y + w22*z + w23) + v03,
         v10 * (w00*x + w01*y + w02*z + w03) + v11 * (w10*x + w11*y + w12*z + w13)
          + v12 * (w20*x + w21*y + w22*z + w23) + v13,
         v20 * (w00*x + w01*y + w02*z + w03) + v21 * (w10*x + w11*y + w12*z + w13)
          + v22 * (w20*x + w21*y + w22*z + w23) + v23]"
    unfolding V Vi p homogeneous_transform_explicit ..
  also have "\<dots> = [x, y, z]"
    unfolding regroup I by simp
  finally show ?thesis unfolding p .
qed

theorem view_round_trip_witness:
  "exact_inv [[1, 0, 0, 1], [0, 1, 0, 2], [0, 0, 1, 3], [0, 0, 0, 1]]
     = Inr [[1, 0, 0, - 1], [0, 1, 0, - 2], [0, 0, 1, - 3], [0, 0, 0, 1]]
   \<and> homogeneous_transform [[1, 0, 0, 1], [0, 1, 0, 2], [0, 0, 1, 3], [0, 0, 0, 1]]
       (homogeneous_transform [[1, 0, 0, - 1], [0, 1, 0, - 2], [0, 0, 1, - 3], [0, 0, 0, 1]]
          [1 / 2, 0, 2])
     = [1 / 2, 0, 2]"
proof -
  have inv: "exact_inv [[1, 0, 0, 1], [0, 1, 0, 2], [0, 0, 1, 3], [0, 0, 0, 1]]
               = Inr [[1, 0, 0, - 1], [0, 1, 0, - 2], [0, 0, 1, - 3], [0, 0, 0, 1]]"
    by code_simp
  from view_round_trip [OF inv, of "[1 / 2, 0, 2]"] inv show ?thesis
    by simp
qed

subsection \<open>One object\<close>

lemma events_of_append [simp]: "events_of i (xs @ ys) = events_of i xs @ events_of i ys"
  by (simp add: events_of_def)

lemma events_of_Nil [simp]: "events_of i [] = []"
  by (simp add: events_of_def)

lemma events_of_Cons:
  "events_of i (ev # evs) = (if event_id ev = Some i then ev # events_of i evs else events_of i evs)"
  by (simp add: events_of_def)

text \<open>The pose estimation writes the entry of its own object and prints about it only.\<close>

lemma estimate_pose_other:
  assumes "j \<noteq> i"
  shows "map_of (timestep_object_poses (estimate_pose lib M i pcd st)) j
           = map_of (timestep_object_poses st) j"
    and "events_of j (printed (estimate_pose lib M i pcd st)) = events_of j (printed st)"
  using assms
  by (auto simp: estimate_pose_def Let_def update_conv' events_of_Cons split: sum.splits)

lemma estimate_pose_printed:
  "set (printed st) \<subseteq> set (printed (estimate_pose lib M i pcd st))"
  by (auto simp: estimate_pose_def Let_def split: sum.splits)

lemma estimate_pose_keys:
  "fst ` set (timestep_object_poses (estimate_pose lib M i pcd st))
     = (if points pcd = [] then fst ` set (timestep_object_poses st)
        else insert i (fst ` set (timestep_object_poses st)))"
  by (auto simp: estimate_pose_def Let_def dom_update split: sum.splits)

lemma estimate_pose_events:
  "events_of i (printed (estimate_pose lib M i pcd st))
     = events_of i (printed st) @
       (if points pcd = [] then []
        else case get_oriented_bounding_box lib pcd of
               Inr box \<Rightarrow>
                 [PoseReport i (np_mean_axis0 (points pcd))
                    (homogeneous_transform M (np_mean_axis0 (points pcd)))
                    (rotate_to_world M (obb_R box)) (obb_extent box)]
             | Inl e \<Rightarrow> [ObbError i e])"
  by (auto simp: estimate_pose_def Let_def events_of_Cons split: sum.splits)

lemma process_object_other:
  assumes "process_object lib K M fr st i = Inr st'" and "j \<noteq> i"
  shows "map_of (timestep_object_poses st') j = map_of (timestep_object_poses st) j"
    and "events_of j (printed st') = events_of j (printed st)"
  using assms
  by (auto simp: process_object_def Let_def events_of_Cons estimate_pose_other
           split: if_splits sum.splits)

lemma process_object_printed:
  assumes "process_object lib K M fr st i = Inr st'"
  shows "set (printed st) \<subseteq> set (printed st')"
  using assms estimate_pose_printed
  by (fastforce simp: process_object_def Let_def split: if_splits sum.splits)

text \<open>What processing a segmented object with a positive ID does, branch by branch.\<close>

lemma process_object_too_few:
  assumes "process_object lib K M fr st i = Inr st'" and "0 < i"
    and "i \<in> set (np_unique (seg_s fr))" and "\<not> reaches_threshold lib K fr i"
  shows "st' = st\<lparr>printed := printed st @ [Processing i, TooFewPoints i (cloud_size lib K fr i)]\<rparr>"
  using assms
  by (auto simp: process_object_def Let_def reaches_threshold_def cloud_size_def
                 np_any_object_mask split: if_splits sum.splits)

lemma process_object_filter_failed:
  assumes "process_object lib K M fr st i = Inr st'" and "0 < i"
    and "i \<in> set (np_unique (seg_s fr))" and "reaches_threshold lib K fr i"
    and "\<not> filter_leaves_points lib K fr i"
  shows "timestep_object_poses st' = timestep_object_poses st"
  using assms
  by (auto simp: process_object_def Let_def reaches_threshold_def filter_leaves_points_def
                 np_any_object_mask estimate_pose_def split: if_splits sum.splits)

lemma process_object_filter_empty:
  assumes "process_object lib K M fr st i = Inr st'" and "0 < i"
    and "i \<in> set (np_unique (seg_s fr))" and "reaches_threshold lib K fr i"
    and "filter_leaves_nothing lib K fr i"
  shows "st' = st\<lparr>printed := printed st @ [Processing i, CloudSize i (cloud_size lib K fr i)]\<rparr>"
  using assms
  by (auto simp: process_object_def Let_def reaches_threshold_def filter_leaves_nothing_def
                 cloud_size_def np_any_object_mask estimate_pose_def
           split: if_splits sum.splits)

lemma process_object_emits:
  assumes "process_object lib K M fr st i = Inr st'" and "0 < i"
    and "i \<in> set (np_unique (seg_s fr))" and "reaches_threshold lib K fr i"
    and "filter_leaves_points lib K fr i"
  shows "i \<in> fst ` set (timestep_object_poses st')"
  using assms
  by (auto simp: process_object_def Let_def reaches_threshold_def filter_leaves_points_def
                 np_any_object_mask estimate_pose_keys split: if_splits sum.splits)

lemma process_object_background:
  "i \<le> 0 \<Longrightarrow> process_object lib K M fr st i = Inr st"
  by (simp add: process_object_def)

subsection \<open>The loop over the objects of a frame\<close>

lemma process_objects_append:
  "process_objects body st (xs @ ys) =
     (case process_objects body st xs of
        Inl e \<Rightarrow> Inl e
      | Inr st' \<Rightarrow> process_objects body st' ys)"
  by (induction xs arbitrary: st) (auto split: sum.splits)

lemma process_objects_other:
  assumes "process_objects (process_object lib K M fr) st ids = Inr st'" and "i \<notin> set ids"
  shows "map_of (timestep_object_poses st') i = map_of (timestep_object_poses st) i
         \<and> events_of i (printed st') = events_of i (printed st)"
  using assms
proof (induction ids arbitrary: st)
  case Nil
  then show ?case by simp
next
  case (Cons j ids)
  from Cons.prems obtain s where s: "process_object lib K M fr st j = Inr s"
    and rest: "process_objects (process_object lib K M fr) s ids = Inr st'"
    by (auto split: sum.splits)
  from Cons.prems have "i \<noteq> j" "i \<notin> set ids" by auto
  with Cons.IH [OF rest] process_object_other [OF s] show ?case by simp
qed

text \<open>
  In a frame that was processed to its end, each listed ID was processed once, from a state
  without an entry or a message for it, and nothing later touched its entry or messages.
\<close>

lemma perceive_frame_object:
  assumes "perceive_frame lib K fr = Inr st" and "i \<in> set (np_unique (seg_s fr))"
  obtains V M s1 s2 where
    "reshape44 (stat_viewMat fr) = Inr V" and "linalg_inv lib V = Inr M"
    and "process_object lib K M fr s1 i = Inr s2"
    and "map_of (timestep_object_poses s1) i = None"
    and "events_of i (printed s1) = []"
    and "map_of (timestep_object_poses st) i = map_of (timestep_object_poses s2) i"
    and "events_of i (printed st) = events_of i (printed s2)"
proof -
  let ?ids = "np_unique (seg_s fr)"
  let ?s0 = "\<lparr>timestep_object_poses = [],
              visualization_geometries = [CoordinateFrame (1 / 2) [0, 0, 0]],
              printed = [UniqueIds ?ids]\<rparr>"
  from assms(1) obtain V M where V: "reshape44 (stat_viewMat fr) = Inr V"
    and M: "linalg_inv lib V = Inr M"
    and run: "process_objects (process_object lib K M fr) ?s0 ?ids = Inr st"
    by (auto simp: perceive_frame_def Let_def split: sum.splits)
  from assms(2) obtain xs ys where ids: "?ids = xs @ i # ys"
    by (auto dest: split_list)
  with distinct_np_unique [of "seg_s fr"] have out: "i \<notin> set xs" "i \<notin> set ys"
    by auto
  from run obtain s1 s2 where
    s1: "process_objects (process_object lib K M fr) ?s0 xs = Inr s1"
    and s2: "process_object lib K M fr s1 i = Inr s2"
    and rest: "process_objects (process_object lib K M fr) s2 ys = Inr st"
    unfolding ids process_objects_append by (auto split: sum.splits)
  from process_objects_other [OF s1 out(1)]
  have "map_of (timestep_object_poses s1) i = None" "events_of i (printed s1) = []"
    by (simp_all add: events_of_Cons)
  moreover from process_objects_other [OF rest out(2)]
  have "map_of (timestep_object_poses st) i = map_of (timestep_object_poses s2) i"
    "events_of i (printed st) = events_of i (printed s2)"
    by simp_all
  ultimately show thesis using that V M s2 by blast
qed

lemma perceive_frame_unlisted:
  assumes "perceive_frame lib K fr = Inr st" and "i \<notin> set (np_unique (seg_s fr))"
  shows "map_of (timestep_object_poses st) i = None"
proof -
  from assms(1) obtain M st0 where
    "process_objects (process_object lib K M fr) st0 (np_unique (seg_s fr)) = Inr st"
    and "timestep_object_poses st0 = []"
    by (auto simp: perceive_frame_def Let_def split: sum.splits)
  with process_objects_other [OF this(1) assms(2)] show ?thesis by simp
qed

lemma key_iff: "i \<in> fst ` set al \<longleftrightarrow> map_of al i \<noteq> None"
  by (simp add: map_of_eq_None_iff)


lemma projr_Inr: "\<not> isl x \<Longrightarrow> x = Inr (projr x)"
  by (cases x) simp_all

subsection \<open>The result of a frame\<close>

text \<open>
  Claim C1, as amended. The keys of the Frame Result of a processed frame are exactly the
  listed IDs above 0 whose cloud reached the threshold of 10 points and whose filtering
  (lines 152-154) raised nothing and left at least one point (line 160). An ID whose
  cloud reached the threshold is a key only under these two further conditions.
\<close>

theorem frame_result_keys:
  assumes "perceive_frame lib K fr = Inr st"
  shows "fst ` set (timestep_object_poses st)
           = {i \<in> set (np_unique (seg_s fr)).
                0 < i \<and> reaches_threshold lib K fr i \<and> filter_leaves_points lib K fr i}"
proof (intro set_eqI iffI)
  fix i
  assume key: "i \<in> fst ` set (timestep_object_poses st)"
  then have some: "map_of (timestep_object_poses st) i \<noteq> None"
    by (simp add: key_iff)
  have listed: "i \<in> set (np_unique (seg_s fr))"
  proof (rule ccontr)
    assume "i \<notin> set (np_unique (seg_s fr))"
    from perceive_frame_unlisted [OF assms this] some show False
      by simp
  qed
  from perceive_frame_object [OF assms listed]
  obtain V M s1 s2 where "reshape44 (stat_viewMat fr) = Inr V"
    and s2: "process_object lib K M fr s1 i = Inr s2"
    and none: "map_of (timestep_object_poses s1) i = None"
    and same: "map_of (timestep_object_poses st) i = map_of (timestep_object_poses s2) i"
    by metis
  have pos: "0 < i"
  proof (rule ccontr)
    assume "\<not> 0 < i"
    then have "process_object lib K M fr s1 i = Inr s1"
      by (simp add: process_object_background)
    with s2 none same some show False by simp
  qed
  have reach: "reaches_threshold lib K fr i"
  proof (rule ccontr)
    assume "\<not> reaches_threshold lib K fr i"
    from process_object_too_few [OF s2 pos listed this] none same some show False
      by simp
  qed
  have "filter_leaves_points lib K fr i"
  proof (rule ccontr)
    assume "\<not> filter_leaves_points lib K fr i"
    from process_object_filter_failed [OF s2 pos listed reach this] none same some
    show False by simp
  qed
  with listed pos reach
  show "i \<in> {i \<in> set (np_unique (seg_s fr)).
               0 < i \<and> reaches_threshold lib K fr i \<and> filter_leaves_points lib K fr i}"
    by simp
next
  fix i
  assume "i \<in> {i \<in> set (np_unique (seg_s fr)).
                 0 < i \<and> reaches_threshold lib K fr i \<and> filter_leaves_points lib K fr i}"
  then have listed: "i \<in> set (np_unique (seg_s fr))" and pos: "0 < i"
    and reach: "reaches_threshold lib K fr i" and left: "filter_leaves_points lib K fr i"
    by simp_all
  from perceive_frame_object [OF assms listed]
  obtain V M s1 s2 where "reshape44 (stat_viewMat fr) = Inr V"
    and s2: "process_object lib K M fr s1 i = Inr s2"
    and same: "map_of (timestep_object_poses st) i = map_of (timestep_object_poses s2) i"
    by metis
  from process_object_emits [OF s2 pos listed reach left] same
  show "i \<in> fst ` set (timestep_object_poses st)"
    by (simp add: key_iff)
qed

theorem frame_result_keys_witness:
  "perceive_frame scene_lib scene_intrinsics scene_frame
     = Inr (projr (perceive_frame scene_lib scene_intrinsics scene_frame))
   \<and> fst ` set (timestep_object_poses
                  (projr (perceive_frame scene_lib scene_intrinsics scene_frame)))
     = {i \<in> set (np_unique (seg_s scene_frame)).
          0 < i \<and> reaches_threshold scene_lib scene_intrinsics scene_frame i
                \<and> filter_leaves_points scene_lib scene_intrinsics scene_frame i}
   \<and> map fst (timestep_object_poses
                 (projr (perceive_frame scene_lib scene_intrinsics scene_frame))) = [5]"
proof -
  have "\<not> isl (perceive_frame scene_lib scene_intrinsics scene_frame)"
    by code_simp
  then have run: "perceive_frame scene_lib scene_intrinsics scene_frame
                    = Inr (projr (perceive_frame scene_lib scene_intrinsics scene_frame))"
    by (rule projr_Inr)
  have keys: "map fst (timestep_object_poses
                (projr (perceive_frame scene_lib scene_intrinsics scene_frame))) = [5]"
    by code_simp
  from frame_result_keys [OF run] run keys show ?thesis
    by simp
qed

theorem frame_result_keys_counterexample:
  "5 \<in> set (np_unique (seg_s scene_frame))
   \<and> reaches_threshold scene_lib_no_inliers scene_intrinsics scene_frame 5
   \<and> cloud_size scene_lib_no_inliers scene_intrinsics scene_frame 5 = 12
   \<and> frame_result_at scene_lib_no_inliers scene_intrinsics scene_frame 5 = Inr None"
  by code_simp

text \<open>
  Claim C3. In a processed frame, an object whose cloud, after the origin points are
  removed, has fewer than 10 points gets the message of line 146 with that count, no other
  message after the one of line 104, and no entry in the Frame Result.
\<close>

theorem too_few_points_skipped:
  assumes "perceive_frame lib K fr = Inr st"
    and "i \<in> set (np_unique (seg_s fr))" and "0 < i"
    and "\<not> reaches_threshold lib K fr i"
  shows "cloud_size lib K fr i < 10
         \<and> events_of i (printed st) = [Processing i, TooFewPoints i (cloud_size lib K fr i)]
         \<and> i \<notin> fst ` set (timestep_object_poses st)"
proof -
  from perceive_frame_object [OF assms(1,2)]
  obtain V M s1 s2 where "reshape44 (stat_viewMat fr) = Inr V"
    and s2: "process_object lib K M fr s1 i = Inr s2"
    and none: "map_of (timestep_object_poses s1) i = None"
    and quiet: "events_of i (printed s1) = []"
    and same: "map_of (timestep_object_poses st) i = map_of (timestep_object_poses s2) i"
    and same_ev: "events_of i (printed st) = events_of i (printed s2)"
    by metis
  from process_object_too_few [OF s2 assms(3,2,4)]
  have s2': "s2 = s1\<lparr>printed := printed s1 @
                      [Processing i, TooFewPoints i (cloud_size lib K fr i)]\<rparr>" .
  have "cloud_size lib K fr i < 10"
    using s2 assms(2,3,4)
    by (auto simp: process_object_def Let_def reaches_threshold_def cloud_size_def
                   np_any_object_mask split: if_splits sum.splits)
  moreover from s2' quiet same_ev
  have "events_of i (printed st) = [Processing i, TooFewPoints i (cloud_size lib K fr i)]"
    by (simp add: events_of_Cons)
  moreover from s2' none same have "i \<notin> fst ` set (timestep_object_poses st)"
    by (simp add: key_iff)
  ultimately show ?thesis by simp
qed

theorem too_few_points_skipped_witness:
  "2 \<in> set (np_unique (seg_s scene_frame))
   \<and> \<not> reaches_threshold scene_lib scene_intrinsics scene_frame 2
   \<and> cloud_size scene_lib scene_intrinsics scene_frame 2 = 2
   \<and> events_of 2 (printed (projr (perceive_frame scene_lib scene_intrinsics scene_frame)))
       = [Processing 2, TooFewPoints 2 2]
   \<and> 2 \<notin> fst ` set (timestep_object_poses
                       (projr (perceive_frame scene_lib scene_intrinsics scene_frame)))"
proof -
  have "\<not> isl (perceive_frame scene_lib scene_intrinsics scene_frame)"
    by code_simp
  then have run: "perceive_frame scene_lib scene_intrinsics scene_frame
                    = Inr (projr (perceive_frame scene_lib scene_intrinsics scene_frame))"
    by (rule projr_Inr)
  have listed: "2 \<in> set (np_unique (seg_s scene_frame))"
    by code_simp
  have few: "\<not> reaches_threshold scene_lib scene_intrinsics scene_frame 2"
    by code_simp
  have size: "cloud_size scene_lib scene_intrinsics scene_frame 2 = 2"
    by code_simp
  from too_few_points_skipped [OF run listed _ few] listed few size show ?thesis
    by simp
qed


lemma perceive_frame_key:
  assumes "perceive_frame lib K fr = Inr st" and "i \<in> fst ` set (timestep_object_poses st)"
  shows "i \<in> set (np_unique (seg_s fr))" and "0 < i"
    and "reaches_threshold lib K fr i" and "filter_leaves_points lib K fr i"
proof -
  from assms(2) have some: "map_of (timestep_object_poses st) i \<noteq> None"
    by (simp add: key_iff)
  show listed: "i \<in> set (np_unique (seg_s fr))"
  proof (rule ccontr)
    assume "i \<notin> set (np_unique (seg_s fr))"
    from perceive_frame_unlisted [OF assms(1) this] some show False
      by simp
  qed
  from perceive_frame_object [OF assms(1) listed]
  obtain V M s1 s2 where "reshape44 (stat_viewMat fr) = Inr V"
    and s2: "process_object lib K M fr s1 i = Inr s2"
    and none: "map_of (timestep_object_poses s1) i = None"
    and same: "map_of (timestep_object_poses st) i = map_of (timestep_object_poses s2) i"
    by metis
  show pos: "0 < i"
  proof (rule ccontr)
    assume "\<not> 0 < i"
    then have "process_object lib K M fr s1 i = Inr s1"
      by (simp add: process_object_background)
    with s2 none same some show False by simp
  qed
  show reach: "reaches_threshold lib K fr i"
  proof (rule ccontr)
    assume "\<not> reaches_threshold lib K fr i"
    from process_object_too_few [OF s2 pos listed this] none same some show False
      by simp
  qed
  show "filter_leaves_points lib K fr i"
  proof (rule ccontr)
    assume "\<not> filter_leaves_points lib K fr i"
    from process_object_filter_failed [OF s2 pos listed reach this] none same some
    show False by simp
  qed
qed

text \<open>
  Claim C9. In a processed frame every key of the Frame Result is an object whose
  filtering raised nothing and left at least one point; an object whose cloud reached the
  threshold and whose filtering returned an empty cloud has no entry, and the only
  messages about it are those of lines 104 and 149: no error is reported.
\<close>

theorem filtered_to_nothing_is_silent:
  assumes "perceive_frame lib K fr = Inr st"
  shows "(\<forall>i\<in>fst ` set (timestep_object_poses st). filter_leaves_points lib K fr i)
       \<and> (\<forall>i\<in>set (np_unique (seg_s fr)).
            0 < i \<and> reaches_threshold lib K fr i \<and> filter_leaves_nothing lib K fr i \<longrightarrow>
              i \<notin> fst ` set (timestep_object_poses st)
              \<and> events_of i (printed st)
                  = [Processing i, CloudSize i (cloud_size lib K fr i)])"
proof (intro conjI ballI impI)
  fix i
  assume "i \<in> fst ` set (timestep_object_poses st)"
  then show "filter_leaves_points lib K fr i"
    by (rule perceive_frame_key(4) [OF assms])
next
  fix i
  assume listed: "i \<in> set (np_unique (seg_s fr))"
    and "0 < i \<and> reaches_threshold lib K fr i \<and> filter_leaves_nothing lib K fr i"
  then have pos: "0 < i" and reach: "reaches_threshold lib K fr i"
    and empty: "filter_leaves_nothing lib K fr i"
    by simp_all
  from perceive_frame_object [OF assms listed]
  obtain V M s1 s2 where "reshape44 (stat_viewMat fr) = Inr V"
    and s2: "process_object lib K M fr s1 i = Inr s2"
    and none: "map_of (timestep_object_poses s1) i = None"
    and quiet: "events_of i (printed s1) = []"
    and same: "map_of (timestep_object_poses st) i = map_of (timestep_object_poses s2) i"
    and same_ev: "events_of i (printed st) = events_of i (printed s2)"
    by metis
  from process_object_filter_empty [OF s2 pos listed reach empty]
  have s2': "s2 = s1\<lparr>printed := printed s1 @
                      [Processing i, CloudSize i (cloud_size lib K fr i)]\<rparr>" .
  from s2' none same show "i \<notin> fst ` set (timestep_object_poses st)"
    by (simp add: key_iff)
  from s2' quiet same_ev
  show "events_of i (printed st) = [Processing i, CloudSize i (cloud_size lib K fr i)]"
    by (simp add: events_of_Cons)
qed

theorem filtered_to_nothing_is_silent_witness:
  "5 \<in> set (np_unique (seg_s scene_frame))
   \<and> reaches_threshold scene_lib_no_inliers scene_intrinsics scene_frame 5
   \<and> filter_leaves_nothing scene_lib_no_inliers scene_intrinsics scene_frame 5
   \<and> 5 \<notin> fst ` set (timestep_object_poses
                       (projr (perceive_frame scene_lib_no_inliers scene_intrinsics scene_frame)))
   \<and> events_of 5
        (printed (projr (perceive_frame scene_lib_no_inliers scene_intrinsics scene_frame)))
       = [Processing 5, CloudSize 5 12]"
proof -
  have "\<not> isl (perceive_frame scene_lib_no_inliers scene_intrinsics scene_frame)"
    by code_simp
  then have run: "perceive_frame scene_lib_no_inliers scene_intrinsics scene_frame
      = Inr (projr (perceive_frame scene_lib_no_inliers scene_intrinsics scene_frame))"
    by (rule projr_Inr)
  have listed: "5 \<in> set (np_unique (seg_s scene_frame))"
    by code_simp
  have reach: "reaches_threshold scene_lib_no_inliers scene_intrinsics scene_frame 5"
    by code_simp
  have empty: "filter_leaves_nothing scene_lib_no_inliers scene_intrinsics scene_frame 5"
    by code_simp
  have size: "cloud_size scene_lib_no_inliers scene_intrinsics scene_frame 5 = 12"
    by code_simp
  from filtered_to_nothing_is_silent [OF run] listed reach empty size show ?thesis
    by simp
qed

subsection \<open>Pose records\<close>

lemma complete_record_iff:
  "complete_record M r \<longleftrightarrow>
     (\<exists>pc pw Rc. map_of r ''position_camera'' = Some (Vec pc)
        \<and> map_of r ''position_world'' = Some (Vec pw)
        \<and> map_of r ''orientation_camera'' = Some (Mat Rc)
        \<and> map_of r ''orientation_world'' = Some (Mat (rotate_to_world M Rc))
        \<and> (map_of r ''dimensions'' = Some PyNone \<longrightarrow> Rc = np_eye3))"
  by (auto simp: complete_record_def split: option.splits pyval.splits)

lemma set_update_subset: "set (AList.update k v al) \<subseteq> insert (k, v) (set al)"
  by (induction al) auto

lemma estimate_pose_complete:
  assumes "\<forall>(j, r)\<in>set (timestep_object_poses st). complete_record M r"
    and "(j, r) \<in> set (timestep_object_poses (estimate_pose lib M i pcd st))"
  shows "complete_record M r"
proof (cases "points pcd = []")
  case True
  with assms show ?thesis by (auto simp: estimate_pose_def)
next
  case False
  show ?thesis
  proof (cases "get_oriented_bounding_box lib pcd")
    case (Inl e)
    let ?r = "[(''position_camera'', Vec (np_mean_axis0 (points pcd))),
               (''position_world'', Vec (homogeneous_transform M (np_mean_axis0 (points pcd)))),
               (''orientation_camera'', Mat np_eye3),
               (''orientation_world'', Mat (rotate_to_world M np_eye3)),
               (''dimensions'', PyNone)]"
    have "complete_record M ?r"
      by (simp add: complete_record_def)
    moreover have "set (timestep_object_poses (estimate_pose lib M i pcd st))
                     \<subseteq> insert (i, ?r) (set (timestep_object_poses st))"
      using False Inl by (simp add: estimate_pose_def Let_def set_update_subset)
    ultimately show ?thesis using assms by auto
  next
    case (Inr box)
    let ?r = "[(''position_camera'', Vec (np_mean_axis0 (points pcd))),
               (''orientation_camera'', Mat (obb_R box)),
               (''position_world'', Vec (homogeneous_transform M (np_mean_axis0 (points pcd)))),
               (''orientation_world'', Mat (rotate_to_world M (obb_R box))),
               (''dimensions'', Vec (obb_extent box))]"
    have "complete_record M ?r"
      by (simp add: complete_record_def)
    moreover have "set (timestep_object_poses (estimate_pose lib M i pcd st))
                     \<subseteq> insert (i, ?r) (set (timestep_object_poses st))"
      using False Inr by (simp add: estimate_pose_def Let_def set_update_subset)
    ultimately show ?thesis using assms by auto
  qed
qed

lemma process_object_poses:
  assumes "process_object lib K M fr st i = Inr st'"
  shows "timestep_object_poses st' = timestep_object_poses st
         \<or> (\<exists>pcd s. timestep_object_poses s = timestep_object_poses st
                      \<and> st' = estimate_pose lib M i pcd s)"
proof (cases "0 < i \<and> np_any (object_mask (seg_s fr) i)")
  case False
  with assms show ?thesis
    by (auto simp: process_object_def Let_def split: if_splits)
next
  case True
  with assms obtain raw where
    raw: "reconstruct lib K fr (object_mask (seg_s fr) i) = Inr raw"
    by (auto simp: process_object_def Let_def split: if_splits sum.splits)
  show ?thesis
  proof (cases "length (points raw) < 10")
    case True
    with assms \<open>0 < i \<and> np_any (object_mask (seg_s fr) i)\<close> raw show ?thesis
      by (auto simp: process_object_def Let_def)
  next
    case False
    note enough = this
    show ?thesis
    proof (cases "filter_cloud lib raw")
      case (Inl e)
      with assms \<open>0 < i \<and> np_any (object_mask (seg_s fr) i)\<close> raw enough show ?thesis
        by (auto simp: process_object_def Let_def)
    next
      case (Inr filtered)
      let ?s = "st\<lparr>printed := printed st @
                    [Processing i, CloudSize i (length (points raw))]\<rparr>"
      from assms \<open>0 < i \<and> np_any (object_mask (seg_s fr) i)\<close> raw enough Inr
      have "st' = estimate_pose lib M i filtered ?s"
        by (auto simp: process_object_def Let_def)
      moreover have "timestep_object_poses ?s = timestep_object_poses st"
        by simp
      ultimately show ?thesis by blast
    qed
  qed
qed

lemma process_object_complete:
  assumes "process_object lib K M fr st i = Inr st'"
    and "\<forall>(j, r)\<in>set (timestep_object_poses st). complete_record M r"
  shows "\<forall>(j, r)\<in>set (timestep_object_poses st'). complete_record M r"
proof (clarify)
  fix j r
  assume in': "(j, r) \<in> set (timestep_object_poses st')"
  from process_object_poses [OF assms(1)] show "complete_record M r"
  proof (elim disjE exE conjE)
    assume "timestep_object_poses st' = timestep_object_poses st"
    with assms(2) in' show ?thesis by auto
  next
    fix pcd s
    assume "timestep_object_poses s = timestep_object_poses st"
      and "st' = estimate_pose lib M i pcd s"
    with assms(2) in' estimate_pose_complete [of s M j r lib i pcd] show ?thesis
      by simp
  qed
qed

lemma process_objects_complete:
  assumes "process_objects (process_object lib K M fr) st ids = Inr st'"
    and "\<forall>(j, r)\<in>set (timestep_object_poses st). complete_record M r"
  shows "\<forall>(j, r)\<in>set (timestep_object_poses st'). complete_record M r"
  using assms
proof (induction ids arbitrary: st)
  case Nil
  then show ?case by simp
next
  case (Cons i ids)
  from Cons.prems(1) obtain s where s: "process_object lib K M fr st i = Inr s"
    and rest: "process_objects (process_object lib K M fr) s ids = Inr st'"
    by (auto split: sum.splits)
  from Cons.IH [OF rest process_object_complete [OF s Cons.prems(2)]] show ?case .
qed

text \<open>
  Claim C10. Every pose record of the Frame Result of a processed frame, from line 178 or
  from the fallback of line 230, has a position and an orientation in both frames; the
  world orientation is the 3x3 block of the inverse view matrix times the camera
  orientation, and where the dimensions are None the camera orientation is the identity.
\<close>

theorem pose_records_complete:
  assumes "perceive_frame lib K fr = Inr st"
    and "reshape44 (stat_viewMat fr) = Inr V" and "linalg_inv lib V = Inr M"
    and "(i, r) \<in> set (timestep_object_poses st)"
  shows "\<exists>pc pw Rc.
           map_of r ''position_camera'' = Some (Vec pc)
         \<and> map_of r ''position_world'' = Some (Vec pw)
         \<and> map_of r ''orientation_camera'' = Some (Mat Rc)
         \<and> map_of r ''orientation_world'' = Some (Mat (np_dot_mm (map (take 3) (take 3 M)) Rc))
         \<and> (map_of r ''dimensions'' = Some PyNone \<longrightarrow> Rc = [[1, 0, 0], [0, 1, 0], [0, 0, 1]])"
proof -
  from assms(1,2,3) obtain st0 where
    run: "process_objects (process_object lib K M fr) st0 (np_unique (seg_s fr)) = Inr st"
    and "timestep_object_poses st0 = []"
    by (auto simp: perceive_frame_def Let_def split: sum.splits)
  then have "\<forall>(j, r)\<in>set (timestep_object_poses st). complete_record M r"
    by (intro process_objects_complete [OF run]) simp
  with assms(4) have "complete_record M r"
    by auto
  then show ?thesis
    unfolding complete_record_iff rotate_to_world_def np_eye3_def .
qed


theorem pose_records_complete_witness:
  "perceive_frame scene_lib_no_box scene_intrinsics scene_frame
     = Inr (projr (perceive_frame scene_lib_no_box scene_intrinsics scene_frame))
   \<and> reshape44 (stat_viewMat scene_frame)
     = Inr [[1, 0, 0, 1], [0, 1, 0, 2], [0, 0, 1, 3], [0, 0, 0, 1]]
   \<and> linalg_inv scene_lib_no_box [[1, 0, 0, 1], [0, 1, 0, 2], [0, 0, 1, 3], [0, 0, 0, 1]]
     = Inr [[1, 0, 0, - 1], [0, 1, 0, - 2], [0, 0, 1, - 3], [0, 0, 0, 1]]
   \<and> (5, [(''position_camera'', Vec [1 / 2, 0, 2]),
           (''position_world'', Vec [- 1 / 2, - 2, - 1]),
           (''orientation_camera'', Mat [[1, 0, 0], [0, 1, 0], [0, 0, 1]]),
           (''orientation_world'', Mat [[1, 0, 0], [0, 1, 0], [0, 0, 1]]),
           (''dimensions'', PyNone)])
       \<in> set (timestep_object_poses
                (projr (perceive_frame scene_lib_no_box scene_intrinsics scene_frame)))
   \<and> np_dot_mm (map (take 3) (take 3 [[1, 0, 0, - 1], [0, 1, 0, - 2], [0, 0, 1, - 3],
                                        [0, 0, 0, 1]]))
        [[1, 0, 0], [0, 1, 0], [0, 0, 1]]
     = [[1, 0, 0], [0, 1, 0], [0, 0, 1]]"
proof -
  let ?r = "[(''position_camera'', Vec [1 / 2, 0, 2]),
             (''position_world'', Vec [- 1 / 2, - 2, - 1]),
             (''orientation_camera'', Mat [[1, 0, 0], [0, 1, 0], [0, 0, 1]]),
             (''orientation_world'', Mat [[1, 0, 0], [0, 1, 0], [0, 0, 1]]),
             (''dimensions'', PyNone)]"
  have "\<not> isl (perceive_frame scene_lib_no_box scene_intrinsics scene_frame)"
    by code_simp
  then have run: "perceive_frame scene_lib_no_box scene_intrinsics scene_frame
      = Inr (projr (perceive_frame scene_lib_no_box scene_intrinsics scene_frame))"
    by (rule projr_Inr)
  have V: "reshape44 (stat_viewMat scene_frame)
             = Inr [[1, 0, 0, 1], [0, 1, 0, 2], [0, 0, 1, 3], [0, 0, 0, 1]]"
    by code_simp
  have M: "linalg_inv scene_lib_no_box [[1, 0, 0, 1], [0, 1, 0, 2], [0, 0, 1, 3], [0, 0, 0, 1]]
             = Inr [[1, 0, 0, - 1], [0, 1, 0, - 2], [0, 0, 1, - 3], [0, 0, 0, 1]]"
    by code_simp
  have r: "(5, ?r) \<in> set (timestep_object_poses
             (projr (perceive_frame scene_lib_no_box scene_intrinsics scene_frame)))"
    by code_simp
  from pose_records_complete [OF run V M r] run V M r show ?thesis
    by simp
qed

subsection \<open>The fallback record\<close>

text \<open>
  Claim C4. When the box fitting of line 171 raises on a non-empty filtered cloud, the
  object still gets a record: the camera orientation is the 3x3 identity, the dimensions
  are None, and the two positions are the centroid of the cloud and its homogeneous
  transform, which do not involve the box. Processing the object returns a state, not an
  exception.
\<close>

theorem obb_failure_fallback:
  assumes "points pcd \<noteq> []" and "get_oriented_bounding_box lib pcd = Inl e"
  shows "(\<exists>r. map_of (timestep_object_poses (estimate_pose lib M i pcd st)) i = Some r
            \<and> map_of r ''orientation_camera'' = Some (Mat [[1, 0, 0], [0, 1, 0], [0, 0, 1]])
            \<and> map_of r ''dimensions'' = Some PyNone
            \<and> map_of r ''position_camera'' = Some (Vec (np_mean_axis0 (points pcd)))
            \<and> map_of r ''position_world''
                = Some (Vec (homogeneous_transform M (np_mean_axis0 (points pcd)))))
       \<and> (0 < i \<and> np_any (object_mask (seg_s fr) i)
            \<and> reconstruct lib K fr (object_mask (seg_s fr) i) = Inr raw
            \<and> 10 \<le> length (points raw) \<and> filter_cloud lib raw = Inr pcd
          \<longrightarrow> process_object lib K M fr st i
                = Inr (estimate_pose lib M i pcd
                        (st\<lparr>printed := printed st @
                              [Processing i, CloudSize i (length (points raw))]\<rparr>)))"
proof (intro conjI impI)
  let ?r = "[(''position_camera'', Vec (np_mean_axis0 (points pcd))),
             (''position_world'', Vec (homogeneous_transform M (np_mean_axis0 (points pcd)))),
             (''orientation_camera'', Mat np_eye3),
             (''orientation_world'', Mat (rotate_to_world M np_eye3)),
             (''dimensions'', PyNone)]"
  from assms have "map_of (timestep_object_poses (estimate_pose lib M i pcd st)) i = Some ?r"
    by (simp add: estimate_pose_def Let_def update_conv')
  then show "\<exists>r. map_of (timestep_object_poses (estimate_pose lib M i pcd st)) i = Some r
            \<and> map_of r ''orientation_camera'' = Some (Mat [[1, 0, 0], [0, 1, 0], [0, 0, 1]])
            \<and> map_of r ''dimensions'' = Some PyNone
            \<and> map_of r ''position_camera'' = Some (Vec (np_mean_axis0 (points pcd)))
            \<and> map_of r ''position_world''
                = Some (Vec (homogeneous_transform M (np_mean_axis0 (points pcd))))"
    by (simp add: np_eye3_def)
next
  assume "0 < i \<and> np_any (object_mask (seg_s fr) i)
            \<and> reconstruct lib K fr (object_mask (seg_s fr) i) = Inr raw
            \<and> 10 \<le> length (points raw) \<and> filter_cloud lib raw = Inr pcd"
  then show "process_object lib K M fr st i
                = Inr (estimate_pose lib M i pcd
                        (st\<lparr>printed := printed st @
                              [Processing i, CloudSize i (length (points raw))]\<rparr>))"
    by (simp add: process_object_def Let_def)
qed

theorem obb_failure_fallback_witness:
  "points \<lparr>points = [[0, 0, 1], [1, 1, 1], [2, 2, 1]], colors = []\<rparr> \<noteq> []
   \<and> get_oriented_bounding_box scene_lib_no_box
        \<lparr>points = [[0, 0, 1], [1, 1, 1], [2, 2, 1]], colors = []\<rparr>
       = Inl (RuntimeError ''degenerate'')
   \<and> map_of (timestep_object_poses
        (estimate_pose scene_lib_no_box
           [[1, 0, 0, - 1], [0, 1, 0, - 2], [0, 0, 1, - 3], [0, 0, 0, 1]] 7
           \<lparr>points = [[0, 0, 1], [1, 1, 1], [2, 2, 1]], colors = []\<rparr>
           \<lparr>timestep_object_poses = [], visualization_geometries = [], printed = []\<rparr>)) 7
     = Some [(''position_camera'', Vec [1, 1, 1]),
             (''position_world'', Vec [0, - 1, - 2]),
             (''orientation_camera'', Mat [[1, 0, 0], [0, 1, 0], [0, 0, 1]]),
             (''orientation_world'', Mat [[1, 0, 0], [0, 1, 0], [0, 0, 1]]),
             (''dimensions'', PyNone)]"
proof -
  let ?pcd = "\<lparr>points = [[0, 0, 1], [1, 1, 1], [2, 2, 1]], colors = []\<rparr>"
  let ?M = "[[1, 0, 0, - 1], [0, 1, 0, - 2], [0, 0, 1, - 3], [0, 0, 0, 1]]"
  let ?st = "\<lparr>timestep_object_poses = [], visualization_geometries = [], printed = []\<rparr>"
  have ne: "points ?pcd \<noteq> []"
    by simp
  have fails: "get_oriented_bounding_box scene_lib_no_box ?pcd = Inl (RuntimeError ''degenerate'')"
    by (simp add: scene_lib_no_box_def)
  have val: "map_of (timestep_object_poses (estimate_pose scene_lib_no_box ?M 7 ?pcd ?st)) 7
     = Some [(''position_camera'', Vec [1, 1, 1]),
             (''position_world'', Vec [0, - 1, - 2]),
             (''orientation_camera'', Mat [[1, 0, 0], [0, 1, 0], [0, 0, 1]]),
             (''orientation_world'', Mat [[1, 0, 0], [0, 1, 0], [0, 0, 1]]),
             (''dimensions'', PyNone)]"
    by code_simp
  from obb_failure_fallback [OF ne fails, of ?M 7 ?st] ne fails val show ?thesis
    by simp
qed


subsection \<open>The transform in the records and in the world-frame view\<close>

text \<open>
  Claim C5. The world position of a 3-vector is the first three components of the 4x4
  inverse view matrix times the vector with 1.0 appended, and the world orientation is
  the top-left 3x3 block of that matrix times the camera rotation; the record of line 178
  and the world-frame cloud of lines 193-203 hold exactly these values.
\<close>

theorem camera_to_world_transform:
  "homogeneous_transform
     [[m00, m01, m02, m03], [m10, m11, m12, m13], [m20, m21, m22, m23], [m30, m31, m32, m33]]
     [x, y, z]
     = [m00 * x + m01 * y + m02 * z + m03 * 1,
        m10 * x + m11 * y + m12 * z + m13 * 1,
        m20 * x + m21 * y + m22 * z + m23 * 1]
   \<and> rotate_to_world
       [[m00, m01, m02, m03], [m10, m11, m12, m13], [m20, m21, m22, m23], [m30, m31, m32, m33]]
       [[r00, r01, r02], [r10, r11, r12], [r20, r21, r22]]
     = [[m00 * r00 + m01 * r10 + m02 * r20, m00 * r01 + m01 * r11 + m02 * r21,
         m00 * r02 + m01 * r12 + m02 * r22],
        [m10 * r00 + m11 * r10 + m12 * r20, m10 * r01 + m11 * r11 + m12 * r21,
         m10 * r02 + m11 * r12 + m12 * r22],
        [m20 * r00 + m21 * r10 + m22 * r20, m20 * r01 + m21 * r11 + m22 * r21,
         m20 * r02 + m21 * r12 + m22 * r22]]
   \<and> (points pcd \<noteq> [] \<and> get_oriented_bounding_box lib pcd = Inr box \<longrightarrow>
        map_of (timestep_object_poses (estimate_pose lib M i pcd st)) i
          = Some [(''position_camera'', Vec (np_mean_axis0 (points pcd))),
                  (''orientation_camera'', Mat (obb_R box)),
                  (''position_world'',
                     Vec (homogeneous_transform M (np_mean_axis0 (points pcd)))),
                  (''orientation_world'', Mat (rotate_to_world M (obb_R box))),
                  (''dimensions'', Vec (obb_extent box))]
        \<and> visualization_geometries (estimate_pose lib M i pcd st)
          = visualization_geometries st @
            [WorldCloud (map (homogeneous_transform M) (points pcd)) (object_color i),
             CoordinateFrame (1 / 5) (homogeneous_transform M (np_mean_axis0 (points pcd))),
             OrientedBox (homogeneous_transform M (np_mean_axis0 (points pcd)))
               (rotate_to_world M (obb_R box)) (obb_extent box)])
   \<and> (points pcd \<noteq> [] \<and> get_oriented_bounding_box lib pcd = Inl e \<longrightarrow>
        map_of (timestep_object_poses (estimate_pose lib M i pcd st)) i
          = Some [(''position_camera'', Vec (np_mean_axis0 (points pcd))),
                  (''position_world'',
                     Vec (homogeneous_transform M (np_mean_axis0 (points pcd)))),
                  (''orientation_camera'', Mat np_eye3),
                  (''orientation_world'', Mat (rotate_to_world M np_eye3)),
                  (''dimensions'', PyNone)])"
proof (intro conjI impI)
  show "homogeneous_transform
     [[m00, m01, m02, m03], [m10, m11, m12, m13], [m20, m21, m22, m23], [m30, m31, m32, m33]]
     [x, y, z]
     = [m00 * x + m01 * y + m02 * z + m03 * 1,
        m10 * x + m11 * y + m12 * z + m13 * 1,
        m20 * x + m21 * y + m22 * z + m23 * 1]"
    by (simp add: homogeneous_transform_explicit)
  show "rotate_to_world
       [[m00, m01, m02, m03], [m10, m11, m12, m13], [m20, m21, m22, m23], [m30, m31, m32, m33]]
       [[r00, r01, r02], [r10, r11, r12], [r20, r21, r22]]
     = [[m00 * r00 + m01 * r10 + m02 * r20, m00 * r01 + m01 * r11 + m02 * r21,
         m00 * r02 + m01 * r12 + m02 * r22],
        [m10 * r00 + m11 * r10 + m12 * r20, m10 * r01 + m11 * r11 + m12 * r21,
         m10 * r02 + m11 * r12 + m12 * r22],
        [m20 * r00 + m21 * r10 + m22 * r20, m20 * r01 + m21 * r11 + m22 * r21,
         m20 * r02 + m21 * r12 + m22 * r22]]"
    by (rule rotate_to_world_explicit)
next
  assume "points pcd \<noteq> [] \<and> get_oriented_bounding_box lib pcd = Inr box"
  then show "map_of (timestep_object_poses (estimate_pose lib M i pcd st)) i
          = Some [(''position_camera'', Vec (np_mean_axis0 (points pcd))),
                  (''orientation_camera'', Mat (obb_R box)),
                  (''position_world'',
                     Vec (homogeneous_transform M (np_mean_axis0 (points pcd)))),
                  (''orientation_world'', Mat (rotate_to_world M (obb_R box))),
                  (''dimensions'', Vec (obb_extent box))]"
    and "visualization_geometries (estimate_pose lib M i pcd st)
          = visualization_geometries st @
            [WorldCloud (map (homogeneous_transform M) (points pcd)) (object_color i),
             CoordinateFrame (1 / 5) (homogeneous_transform M (np_mean_axis0 (points pcd))),
             OrientedBox (homogeneous_transform M (np_mean_axis0 (points pcd)))
               (rotate_to_world M (obb_R box)) (obb_extent box)]"
    by (simp_all add: estimate_pose_def Let_def update_conv')
next
  assume "points pcd \<noteq> [] \<and> get_oriented_bounding_box lib pcd = Inl e"
  then show "map_of (timestep_object_poses (estimate_pose lib M i pcd st)) i
          = Some [(''position_camera'', Vec (np_mean_axis0 (points pcd))),
                  (''position_world'',
                     Vec (homogeneous_transform M (np_mean_axis0 (points pcd)))),
                  (''orientation_camera'', Mat np_eye3),
                  (''orientation_world'', Mat (rotate_to_world M np_eye3)),
                  (''dimensions'', PyNone)]"
    by (simp add: estimate_pose_def Let_def update_conv')
qed

theorem camera_to_world_transform_witness:
  "points \<lparr>points = [[0, 0, 2], [2, 0, 2], [1, 3, 2]], colors = []\<rparr> \<noteq> []
   \<and> get_oriented_bounding_box scene_lib
        \<lparr>points = [[0, 0, 2], [2, 0, 2], [1, 3, 2]], colors = []\<rparr>
       = Inr \<lparr>obb_R = [[1, 0, 0], [0, 1, 0], [0, 0, 1]], obb_extent = [2, 3, 0]\<rparr>
   \<and> map_of (timestep_object_poses
        (estimate_pose scene_lib
           [[0, - 1, 0, - 1], [1, 0, 0, - 2], [0, 0, 1, - 3], [0, 0, 0, 1]] 7
           \<lparr>points = [[0, 0, 2], [2, 0, 2], [1, 3, 2]], colors = []\<rparr>
           \<lparr>timestep_object_poses = [], visualization_geometries = [], printed = []\<rparr>)) 7
     = Some [(''position_camera'', Vec [1, 1, 2]),
             (''orientation_camera'', Mat [[1, 0, 0], [0, 1, 0], [0, 0, 1]]),
             (''position_world'', Vec [- 2, - 1, - 1]),
             (''orientation_world'', Mat [[0, - 1, 0], [1, 0, 0], [0, 0, 1]]),
             (''dimensions'', Vec [2, 3, 0])]
   \<and> visualization_geometries
        (estimate_pose scene_lib
           [[0, - 1, 0, - 1], [1, 0, 0, - 2], [0, 0, 1, - 3], [0, 0, 0, 1]] 7
           \<lparr>points = [[0, 0, 2], [2, 0, 2], [1, 3, 2]], colors = []\<rparr>
           \<lparr>timestep_object_poses = [], visualization_geometries = [], printed = []\<rparr>)
     = [WorldCloud [[- 1, - 2, - 1], [- 1, 0, - 1], [- 4, - 1, - 1]] [7 / 10, 1 / 10, 9 / 10],
        CoordinateFrame (1 / 5) [- 2, - 1, - 1],
        OrientedBox [- 2, - 1, - 1] [[0, - 1, 0], [1, 0, 0], [0, 0, 1]] [2, 3, 0]]"
proof -
  let ?pcd = "\<lparr>points = [[0, 0, 2], [2, 0, 2], [1, 3, 2]], colors = []\<rparr>"
  let ?M = "[[0, - 1, 0, - 1], [1, 0, 0, - 2], [0, 0, 1, - 3], [0, 0, 0, 1]]"
  let ?st = "\<lparr>timestep_object_poses = [], visualization_geometries = [], printed = []\<rparr>"
  let ?box = "\<lparr>obb_R = [[1, 0, 0], [0, 1, 0], [0, 0, 1]], obb_extent = [2, 3, 0]\<rparr>"
  have ne: "points ?pcd \<noteq> []"
    by simp
  have box: "get_oriented_bounding_box scene_lib ?pcd = Inr ?box"
    by code_simp
  have c: "np_mean_axis0 [[0, 0, 2], [2, 0, 2], [1, 3, 2]] = [1, 1, 2]"
    by code_simp
  have col: "object_color 7 = [7 / 10, 1 / 10, 9 / 10]"
    by code_simp
  from camera_to_world_transform [of 0 "- 1" 0 "- 1" 1 0 0 "- 2" 0 0 1 "- 3" 0 0 0 1
         _ _ _ 1 0 0 0 1 0 0 0 1 ?pcd scene_lib ?box ?M 7 ?st]
       ne box
  show ?thesis
    by (simp add: c col homogeneous_transform_explicit rotate_to_world_explicit)
qed


subsection \<open>The run\<close>

lemma set_frame_keys:
  "set (frame_keys obj_names)
     = {(n, t, i). n \<in> set obj_names \<and> t < 10 \<and> i < 10000 \<and> i mod 100 = 0}"
  by (fastforce simp: frame_keys_def)

text \<open>The first frame that is processed is step 0 of trial 0 of the first object name.\<close>

lemma frame_keys_Cons:
  "frame_keys (n # ns) = (n, 0, 0) # tl (frame_keys (n # ns))"
proof -
  have "[0..<10] = 0 # [Suc 0..<10]" "[0..<10000] = 0 # [Suc 0..<10000]"
    by (subst upt_rec, simp)+
  then show ?thesis
    by (simp add: frame_keys_def)
qed

text \<open>An exception of the inversion of line 73 is the outcome of the frame.\<close>

lemma perceive_frame_inv_raises:
  assumes "reshape44 (stat_viewMat fr) = Inr V" and "linalg_inv lib V = Inl e"
  shows "perceive_frame lib K fr = Inl e"
  using assms by (simp add: perceive_frame_def)

lemma run_frames_append:
  "run_frames lib K render acc (xs @ ys) =
     (case run_frames lib K render acc xs of
        Inl e \<Rightarrow> Inl e
      | Inr acc' \<Rightarrow> run_frames lib K render acc' ys)"
  by (induction xs arbitrary: acc) (auto split: sum.splits)

text \<open>
  Claim C2, as amended. A frame at whose view matrix the inversion of line 73 raises (the
  LinAlgError by which numpy signals a singular matrix) is left before any object is
  processed, so the frame has no Frame Result; no handler catches the exception, so
  \<open>run_exp\<close> ends with it and returns no Run Result, whatever the later frames are.
\<close>

theorem inversion_error_ends_run:
  assumes "intrinsics_of (projection_matrix sim) = Inr K"
    and "frame_keys obj_names = pre @ k # ks"
    and "run_frames lib K (renders sim) [] pre = Inr acc"
    and "reshape44 (stat_viewMat (renders sim k)) = Inr V"
    and "linalg_inv lib V = Inl e"
  shows "perceive_frame lib K (renders sim k) = Inl e
         \<and> run_frames lib K (renders sim) acc (k # ks) = Inl e
         \<and> run_exp lib sim obj_names = Inl e"
proof -
  have frame: "perceive_frame lib K (renders sim k) = Inl e"
    using assms(4,5) by (rule perceive_frame_inv_raises)
  then have rest: "run_frames lib K (renders sim) acc (k # ks) = Inl e"
    by simp
  have "run_exp lib sim obj_names = run_frames lib K (renders sim) [] (pre @ k # ks)"
    using assms(1,2) by (simp add: run_exp_def)
  also have "\<dots> = run_frames lib K (renders sim) acc (k # ks)"
    using assms(3) by (simp add: run_frames_append)
  finally show ?thesis using frame rest by simp
qed

theorem inversion_error_ends_run_witness:
  "intrinsics_of (projection_matrix scene_sim) = Inr scene_intrinsics
   \<and> frame_keys [''YcbBanana'']
       = [] @ (''YcbBanana'', 0, 0) # tl (frame_keys [''YcbBanana''])
   \<and> run_frames scene_lib scene_intrinsics (renders scene_sim) [] [] = Inr []
   \<and> reshape44 (stat_viewMat (renders scene_sim (''YcbBanana'', 0, 0)))
       = Inr (replicate 4 (replicate 4 0))
   \<and> linalg_inv scene_lib (replicate 4 (replicate 4 0)) = Inl LinAlgError
   \<and> perceive_frame scene_lib scene_intrinsics (renders scene_sim (''YcbBanana'', 0, 0))
       = Inl LinAlgError
   \<and> run_exp scene_lib scene_sim [''YcbBanana''] = Inl LinAlgError"
proof -
  have K: "intrinsics_of (projection_matrix scene_sim) = Inr scene_intrinsics"
    by code_simp
  have keys: "frame_keys [''YcbBanana'']
                = [] @ (''YcbBanana'', 0, 0) # tl (frame_keys [''YcbBanana''])"
    using frame_keys_Cons [of "''YcbBanana''" "[]"] by simp
  have pre: "run_frames scene_lib scene_intrinsics (renders scene_sim) [] [] = Inr []"
    by simp
  have V: "reshape44 (stat_viewMat (renders scene_sim (''YcbBanana'', 0, 0)))
             = Inr (replicate 4 (replicate 4 0))"
    by code_simp
  have raises: "linalg_inv scene_lib (replicate 4 (replicate 4 0)) = Inl LinAlgError"
    by code_simp
  from inversion_error_ends_run [OF K keys pre V raises] K keys pre V raises show ?thesis
    by simp
qed

theorem inversion_error_ends_run_counterexample:
  "stat_viewMat (renders scene_sim (''YcbBanana'', 0, 0)) = replicate 16 0
   \<and> run_exp scene_lib scene_sim [''YcbBanana''] = Inl LinAlgError
   \<and> (''YcbBanana'', 0, 100) \<in> set (frame_keys [''YcbBanana''])
   \<and> \<not> isl (perceive_frame scene_lib scene_intrinsics
               (renders scene_sim (''YcbBanana'', 0, 100)))"
proof -
  have K: "intrinsics_of (projection_matrix scene_sim) = Inr scene_intrinsics"
    by code_simp
  have zero: "stat_viewMat (renders scene_sim (''YcbBanana'', 0, 0)) = replicate 16 0"
    by code_simp
  have V: "reshape44 (stat_viewMat (renders scene_sim (''YcbBanana'', 0, 0)))
             = Inr (replicate 4 (replicate 4 0))"
    by code_simp
  have raises: "linalg_inv scene_lib (replicate 4 (replicate 4 0)) = Inl LinAlgError"
    by code_simp
  have "perceive_frame scene_lib scene_intrinsics (renders scene_sim (''YcbBanana'', 0, 0))
          = Inl LinAlgError"
    using V raises by (rule perceive_frame_inv_raises)
  then have "run_frames scene_lib scene_intrinsics (renders scene_sim) []
               ((''YcbBanana'', 0, 0) # tl (frame_keys [''YcbBanana''])) = Inl LinAlgError"
    by simp
  then have stop: "run_exp scene_lib scene_sim [''YcbBanana''] = Inl LinAlgError"
    using K frame_keys_Cons [of "''YcbBanana''" "[]"] by (simp add: run_exp_def)
  have later: "(''YcbBanana'', 0, 100) \<in> set (frame_keys [''YcbBanana''])"
    by (simp add: set_frame_keys)
  have fine: "\<not> isl (perceive_frame scene_lib scene_intrinsics
                       (renders scene_sim (''YcbBanana'', 0, 100)))"
    by code_simp
  from zero stop later fine show ?thesis
    by simp
qed

end
